theory Spec2Isabelle
  imports Complex_Main "HOL-Library.AList" "HOL-Library.Sublist"
begin

section \<open>Python values, errors and data objects\<close>

text \<open>
  The widgets of \<^verbatim>\<open>vnpy/trader/ui/widget.py\<close> are dynamically typed: a table cell is
  built from whatever attribute value the event's data object carries.  The values that
  occur are modelled by \<open>pyval\<close>.  An \<open>int\<close> and a \<open>float\<close> are kept apart because
  \<^verbatim>\<open>str\<close> prints them differently; a float is represented by the real number it
  denotes (binary rounding is outside the model).  A \<^verbatim>\<open>datetime\<close> is represented by its
  wall-clock fields in the local time zone, so that \<^verbatim>\<open>astimezone(local_tz)\<close> is the
  identity on the representation.  An enum member carries its class and member name.
\<close>

record datetime =
  dt_year :: nat
  dt_month :: nat
  dt_day :: nat
  dt_hour :: nat
  dt_minute :: nat
  dt_second :: nat
  dt_microsecond :: nat

datatype pyval =
    PNone
  | PBool bool
  | PInt int
  | PFloat real
  | PStr string
  | PEnum string string
  | PDatetime datetime
  | PList "pyval list"

text \<open>Every \<^verbatim>\<open>raise\<close> of the modelled code is a value of \<open>error\<close>.\<close>

datatype error =
    AttributeError
  | KeyError
  | TypeError
  | ValueError
  | NameError string

text \<open>
  A method that mutates the widget returns the widget together with an \<open>outcome\<close>:
  \<open>Done\<close> when it ran to its end, \<open>Raised e\<close> when exception \<open>e\<close> left it.  The state
  returned with \<open>Raised e\<close> holds the mutations made before the exception.
\<close>

datatype outcome = Done | Raised error

text \<open>
  A data object (\<^verbatim>\<open>TickData\<close>, \<^verbatim>\<open>OrderData\<close>, ...) is the map of its attributes:
  \<^verbatim>\<open>data.__getattribute__(name)\<close> raises \<^verbatim>\<open>AttributeError\<close> where the map is \<open>None\<close>.
\<close>

type_synonym pydata = "string \<Rightarrow> pyval option"

record event =
  ev_type :: string
  ev_data :: pydata

text \<open>Python's truth value of an object, as \<^verbatim>\<open>if content:\<close> tests it.\<close>

fun truthy :: "pyval \<Rightarrow> bool" where
  "truthy PNone = False"
| "truthy (PBool b) = b"
| "truthy (PInt i) = (i \<noteq> 0)"
| "truthy (PFloat r) = (r \<noteq> 0)"
| "truthy (PStr s) = (s \<noteq> [])"
| "truthy (PEnum c n) = True"
| "truthy (PDatetime d) = True"
| "truthy (PList xs) = (xs \<noteq> [])"

text \<open>The number a numeric value denotes (\<open>None\<close> for a value that is not a number).\<close>

fun num_value :: "pyval \<Rightarrow> real option" where
  "num_value (PInt i) = Some (of_int i)"
| "num_value (PFloat r) = Some r"
| "num_value v = None"

subsection \<open>Formatting of time stamps\<close>

definition digit_char :: "nat \<Rightarrow> char" where
  "digit_char n = ''0123456789'' ! (n mod 10)"

function dec :: "nat \<Rightarrow> string" where
  "dec n = (if n < 10 then [digit_char n] else dec (n div 10) @ [digit_char n])"
  by pat_completeness auto
termination
  by (relation "measure id") auto

declare dec.simps [simp del]

text \<open>\<^verbatim>\<open>%H\<close>, \<^verbatim>\<open>%M\<close>, \<^verbatim>\<open>%S\<close>, \<^verbatim>\<open>%m\<close>, \<^verbatim>\<open>%d\<close>: two digits, zero padded.\<close>

definition two_digits :: "nat \<Rightarrow> string" where
  "two_digits n = [digit_char (n div 10), digit_char n]"

text \<open>\<^verbatim>\<open>content.strftime("%H:%M:%S")\<close>\<close>

definition strftime_HMS :: "datetime \<Rightarrow> string" where
  "strftime_HMS d =
     two_digits (dt_hour d) @ '':'' @ two_digits (dt_minute d) @ '':'' @ two_digits (dt_second d)"

text \<open>\<^verbatim>\<open>content.strftime("%Y-%m-%d")\<close>\<close>

definition strftime_Ymd :: "datetime \<Rightarrow> string" where
  "strftime_Ymd d =
     dec (dt_year d) @ ''-'' @ two_digits (dt_month d) @ ''-'' @ two_digits (dt_day d)"

section \<open>Table cells\<close>

text \<open>
  The cell classes of the module.  \<open>BaseCell\<close> derives from Qt's
  \<^verbatim>\<open>QTableWidgetItem\<close> and defines \<^verbatim>\<open>__init__\<close> and \<^verbatim>\<open>get_data\<close> only.
\<close>

datatype cell_class =
    BaseCell
  | EnumCell
  | DirectionCell
  | BidCell
  | AskCell
  | PnlCell
  | TimeCell
  | DateCell
  | MsgCell

datatype color = COLOR_LONG | COLOR_SHORT | COLOR_BID | COLOR_ASK | COLOR_BLACK

datatype alignment = AlignCenter | AlignLeftVCenter

record cell =
  cell_class :: cell_class
  cell_text :: string
  cell_data :: pydata
  cell_foreground :: "color option"
  cell_alignment :: alignment

text \<open>
  \<^verbatim>\<open>BaseCell.__init__(content, data)\<close>: centred, text \<^verbatim>\<open>str(content)\<close>, and the data
  object kept in \<^verbatim>\<open>_data\<close>.  The builtin \<^verbatim>\<open>str\<close> is a parameter of the model.
\<close>

definition BaseCell_init :: "(pyval \<Rightarrow> string) \<Rightarrow> cell_class \<Rightarrow> pyval \<Rightarrow> pydata \<Rightarrow> cell" where
  "BaseCell_init str cls content data =
     \<lparr>cell_class = cls, cell_text = str content, cell_data = data,
      cell_foreground = None, cell_alignment = AlignCenter\<rparr>"

text \<open>
  The constructor of each class: every one calls \<^verbatim>\<open>super().__init__(content, data)\<close>;
  \<open>BidCell\<close> and \<open>AskCell\<close> then set the foreground, \<open>MsgCell\<close> the alignment.
\<close>

fun new_cell :: "(pyval \<Rightarrow> string) \<Rightarrow> cell_class \<Rightarrow> pyval \<Rightarrow> pydata \<Rightarrow> cell" where
  "new_cell str BidCell content data =
     (BaseCell_init str BidCell content data)\<lparr>cell_foreground := Some COLOR_BID\<rparr>"
| "new_cell str AskCell content data =
     (BaseCell_init str AskCell content data)\<lparr>cell_foreground := Some COLOR_ASK\<rparr>"
| "new_cell str MsgCell content data =
     (BaseCell_init str MsgCell content data)\<lparr>cell_alignment := AlignLeftVCenter\<rparr>"
| "new_cell str cls content data = BaseCell_init str cls content data"

text \<open>
  \<^verbatim>\<open>set_content\<close> looked up on \<open>BaseCell\<close>: neither \<open>BaseCell\<close> nor
  \<^verbatim>\<open>QTableWidgetItem\<close> defines it, so the attribute lookup raises before any argument is
  evaluated.  This is what \<^verbatim>\<open>super().set_content(...)\<close> reaches from \<open>EnumCell\<close> and
  \<open>PnlCell\<close>, and what \<^verbatim>\<open>cell.set_content(...)\<close> reaches on a \<open>BaseCell\<close>, \<open>BidCell\<close>,
  \<open>AskCell\<close> or \<open>MsgCell\<close>.
\<close>

definition BaseCell_set_content :: "pyval \<Rightarrow> pydata \<Rightarrow> cell \<Rightarrow> error + cell" where
  "BaseCell_set_content content data c = Inl AttributeError"

definition EnumCell_set_content :: "pyval \<Rightarrow> pydata \<Rightarrow> cell \<Rightarrow> error + cell" where
  "EnumCell_set_content content data c =
     (if truthy content then BaseCell_set_content content data c else Inr c)"

definition DirectionCell_set_content :: "pyval \<Rightarrow> pydata \<Rightarrow> cell \<Rightarrow> error + cell" where
  "DirectionCell_set_content content data c =
     (case EnumCell_set_content content data c of
        Inl e \<Rightarrow> Inl e
      | Inr c' \<Rightarrow>
          if content = PEnum ''Direction'' ''SHORT''
          then Inr (c'\<lparr>cell_foreground := Some COLOR_SHORT\<rparr>)
          else Inr (c'\<lparr>cell_foreground := Some COLOR_LONG\<rparr>))"

text \<open>
  \<open>PnlCell.set_content\<close> calls \<^verbatim>\<open>super().set_content(content, data)\<close> first; the colouring
  after it is written out as in the source, with \<^verbatim>\<open>str\<close> the parameter.
\<close>

definition PnlCell_set_content ::
  "(pyval \<Rightarrow> string) \<Rightarrow> pyval \<Rightarrow> pydata \<Rightarrow> cell \<Rightarrow> error + cell" where
  "PnlCell_set_content str content data c =
     (case BaseCell_set_content content data c of
        Inl e \<Rightarrow> Inl e
      | Inr c' \<Rightarrow>
          if take 1 (str content) = ''-''
          then Inr (c'\<lparr>cell_foreground := Some COLOR_SHORT\<rparr>)
          else Inr (c'\<lparr>cell_foreground := Some COLOR_LONG\<rparr>))"

text \<open>
  \<open>TimeCell.set_content\<close>: \<^verbatim>\<open>None\<close> returns at once; a datetime is printed as
  \<^verbatim>\<open>HH:MM:SS.\<close> followed by the milliseconds (unpadded) or \<^verbatim>\<open>000\<close>; any other content
  has no \<^verbatim>\<open>astimezone\<close> attribute.
\<close>

definition TimeCell_set_content :: "pyval \<Rightarrow> pydata \<Rightarrow> cell \<Rightarrow> error + cell" where
  "TimeCell_set_content content data c =
     (case content of
        PNone \<Rightarrow> Inr c
      | PDatetime d \<Rightarrow>
          (let timestamp = strftime_HMS d;
               millisecond = dt_microsecond d div 1000;
               timestamp' = (if millisecond \<noteq> 0 then timestamp @ ''.'' @ dec millisecond
                             else timestamp @ ''.000'')
           in Inr (c\<lparr>cell_text := timestamp', cell_data := data\<rparr>))
      | _ \<Rightarrow> Inl AttributeError)"

definition DateCell_set_content :: "pyval \<Rightarrow> pydata \<Rightarrow> cell \<Rightarrow> error + cell" where
  "DateCell_set_content content data c =
     (case content of
        PNone \<Rightarrow> Inr c
      | PDatetime d \<Rightarrow> Inr (c\<lparr>cell_text := strftime_Ymd d, cell_data := data\<rparr>)
      | _ \<Rightarrow> Inl AttributeError)"

text \<open>\<^verbatim>\<open>cell.set_content(content, data)\<close>, dispatched on the class of the cell.\<close>

definition set_content ::
  "(pyval \<Rightarrow> string) \<Rightarrow> pyval \<Rightarrow> pydata \<Rightarrow> cell \<Rightarrow> error + cell" where
  "set_content str content data c =
     (case cell_class c of
        BaseCell \<Rightarrow> BaseCell_set_content content data c
      | EnumCell \<Rightarrow> EnumCell_set_content content data c
      | DirectionCell \<Rightarrow> DirectionCell_set_content content data c
      | BidCell \<Rightarrow> BaseCell_set_content content data c
      | AskCell \<Rightarrow> BaseCell_set_content content data c
      | PnlCell \<Rightarrow> PnlCell_set_content str content data c
      | TimeCell \<Rightarrow> TimeCell_set_content content data c
      | DateCell \<Rightarrow> DateCell_set_content content data c
      | MsgCell \<Rightarrow> BaseCell_set_content content data c)"

text \<open>The classes that define no \<^verbatim>\<open>set_content\<close> and inherit none.\<close>

definition lacks_set_content :: "cell_class \<Rightarrow> bool" where
  "lacks_set_content cls = (cls = BaseCell \<or> cls = BidCell \<or> cls = AskCell \<or> cls = MsgCell)"

section \<open>Monitors\<close>

text \<open>
  The class attributes of a monitor: \<^verbatim>\<open>data_key\<close>, \<^verbatim>\<open>sorting\<close> and \<^verbatim>\<open>headers\<close>.
  \<^verbatim>\<open>headers\<close> is a dict in insertion order, from the attribute name to the settings
  \<^verbatim>\<open>display\<close>, \<^verbatim>\<open>cell\<close> and \<^verbatim>\<open>update\<close>; it is the association list of its items.
  (\<^verbatim>\<open>event_type\<close> is read by \<^verbatim>\<open>register_event\<close> only and is left out.)
\<close>

record header =
  h_display :: string
  h_cell :: cell_class
  h_update :: bool

record monitor_class =
  data_key :: string
  sorting :: bool
  headers :: "(string \<times> header) list"

text \<open>
  The state of a monitor object.  Qt's table holds cell objects, and \<^verbatim>\<open>self.cells\<close>
  holds references to the same objects, so the cells live in a store (\<open>heap\<close>, addressed
  by position) and the table and \<^verbatim>\<open>self.cells\<close> hold addresses.  A row of the table is
  its hidden flag and one optional item per column.
\<close>

record row =
  row_hidden :: bool
  row_items :: "nat option list"

record monitor =
  table :: "row list"
  heap :: "cell list"
  cells :: "pyval \<Rightarrow> (string \<times> nat) list option"
  sorting_enabled :: bool
  column_count :: nat

text \<open>\<^verbatim>\<open>self.insertRow(0)\<close>: a new row without items, shown, above all others.\<close>

definition insertRow0 :: "monitor \<Rightarrow> monitor" where
  "insertRow0 m =
     m\<lparr>table := \<lparr>row_hidden = False, row_items = replicate (column_count m) None\<rparr> # table m\<rparr>"

text \<open>\<^verbatim>\<open>self.setItem(r, c, cell)\<close>; Qt ignores a position outside the table.\<close>

definition setItem :: "nat \<Rightarrow> nat \<Rightarrow> nat \<Rightarrow> row list \<Rightarrow> row list" where
  "setItem r c a t =
     (if r < length t then t[r := (t ! r)\<lparr>row_items := (row_items (t ! r))[c := Some a]\<rparr>]
      else t)"

text \<open>
  The loop of \<open>insert_new_row\<close> over \<^verbatim>\<open>enumerate(self.headers.keys())\<close>: the attribute is
  read, the cell is constructed (a new object in the store), put into row 0, and kept in
  \<^verbatim>\<open>row_cells\<close> when the column is updatable.
\<close>

fun insert_cells ::
  "(pyval \<Rightarrow> string) \<Rightarrow> pydata \<Rightarrow> (string \<times> header) list \<Rightarrow> nat \<Rightarrow> (string \<times> nat) list
     \<Rightarrow> monitor \<Rightarrow> outcome \<times> (string \<times> nat) list \<times> monitor" where
  "insert_cells str data [] column row_cells m = (Done, row_cells, m)"
| "insert_cells str data ((h, setting) # hs) column row_cells m =
     (case data h of
        None \<Rightarrow> (Raised AttributeError, row_cells, m)
      | Some content \<Rightarrow>
          (let c = new_cell str (h_cell setting) content data;
               a = length (heap m);
               m' = m\<lparr>heap := heap m @ [c], table := setItem 0 column a (table m)\<rparr>;
               row_cells' = (if h_update setting then AList.update h a row_cells
                             else row_cells)
           in insert_cells str data hs (Suc column) row_cells' m'))"

definition insert_new_row ::
  "(pyval \<Rightarrow> string) \<Rightarrow> monitor_class \<Rightarrow> pydata \<Rightarrow> monitor \<Rightarrow> outcome \<times> monitor" where
  "insert_new_row str cfg data m =
     (case insert_cells str data (headers cfg) 0 [] (insertRow0 m) of
        (Raised e, row_cells, m') \<Rightarrow> (Raised e, m')
      | (Done, row_cells, m') \<Rightarrow>
          if data_key cfg \<noteq> [] then
            (case data (data_key cfg) of
               None \<Rightarrow> (Raised AttributeError, m')
             | Some key \<Rightarrow> (Done, m'\<lparr>cells := (cells m')(key \<mapsto> row_cells)\<rparr>))
          else (Done, m'))"

text \<open>
  The loop of \<open>update_old_row\<close> over \<^verbatim>\<open>row_cells.items()\<close>: the attribute is read and
  \<^verbatim>\<open>cell.set_content(content, data)\<close> is called on the cell object.
\<close>

fun update_cells ::
  "(pyval \<Rightarrow> string) \<Rightarrow> pydata \<Rightarrow> (string \<times> nat) list \<Rightarrow> monitor \<Rightarrow> outcome \<times> monitor" where
  "update_cells str data [] m = (Done, m)"
| "update_cells str data ((h, a) # rest) m =
     (case data h of
        None \<Rightarrow> (Raised AttributeError, m)
      | Some content \<Rightarrow>
          (case set_content str content data (heap m ! a) of
             Inl e \<Rightarrow> (Raised e, m)
           | Inr c' \<Rightarrow> update_cells str data rest (m\<lparr>heap := (heap m)[a := c']\<rparr>)))"

definition update_old_row ::
  "(pyval \<Rightarrow> string) \<Rightarrow> monitor_class \<Rightarrow> pydata \<Rightarrow> monitor \<Rightarrow> outcome \<times> monitor" where
  "update_old_row str cfg data m =
     (case data (data_key cfg) of
        None \<Rightarrow> (Raised AttributeError, m)
      | Some key \<Rightarrow>
          (case cells m key of
             None \<Rightarrow> (Raised KeyError, m)
           | Some row_cells \<Rightarrow> update_cells str data row_cells m))"

text \<open>
  \<open>BaseMonitor.process_event\<close>.  Sorting is switched off first and switched on again
  at the end; an exception in between leaves it off.  When sorting is switched on again
  Qt may reorder the rows; \<open>table\<close> keeps them in the order of insertion, and
  nothing below depends on the order of the rows of a table with more than one row.
\<close>

definition process_event ::
  "(pyval \<Rightarrow> string) \<Rightarrow> monitor_class \<Rightarrow> event \<Rightarrow> monitor \<Rightarrow> outcome \<times> monitor" where
  "process_event str cfg ev m =
     (let m1 = (if sorting cfg then m\<lparr>sorting_enabled := False\<rparr> else m);
          data = ev_data ev;
          (out, m2) =
            (if data_key cfg = [] then insert_new_row str cfg data m1
             else
               (case data (data_key cfg) of
                  None \<Rightarrow> (Raised AttributeError, m1)
                | Some key \<Rightarrow>
                    if cells m1 key \<noteq> None then update_old_row str cfg data m1
                    else insert_new_row str cfg data m1))
      in case out of
           Raised e \<Rightarrow> (Raised e, m2)
         | Done \<Rightarrow> (Done, if sorting cfg then m2\<lparr>sorting_enabled := True\<rparr> else m2))"

text \<open>
  The events reach \<open>process_event\<close> one at a time through a Qt signal; an exception
  ends the handling of that event only, and the next event finds the widget as the
  exception left it.
\<close>

fun run ::
  "(pyval \<Rightarrow> string) \<Rightarrow> monitor_class \<Rightarrow> event list \<Rightarrow> monitor \<Rightarrow> monitor" where
  "run str cfg [] m = m"
| "run str cfg (ev # evs) m = run str cfg evs (snd (process_event str cfg ev m))"

subsection \<open>The tick and order monitors\<close>

text \<open>
  The display labels are \<^verbatim>\<open>_("...")\<close> of non-ASCII message ids; \<open>tr\<close> stands for the
  translation function \<^verbatim>\<open>_\<close> of \<^verbatim>\<open>vnpy.trader.locale\<close>, and a message id is given by
  its UTF-8 bytes.
\<close>

definition utf8 :: "nat list \<Rightarrow> string" where
  "utf8 bs = map char_of bs"

definition TickMonitor :: "(string \<Rightarrow> string) \<Rightarrow> monitor_class" where
  "TickMonitor tr =
     \<lparr>data_key = ''vt_symbol'', sorting = True,
      headers = [
        (''symbol'', \<lparr>h_display = tr (utf8 [228, 187, 163, 231, 160, 129]), h_cell = BaseCell, h_update = False\<rparr>),
        (''exchange'', \<lparr>h_display = tr (utf8 [228, 186, 164, 230, 152, 147, 230, 137, 128]), h_cell = EnumCell, h_update = False\<rparr>),
        (''name'', \<lparr>h_display = tr (utf8 [229, 144, 141, 231, 167, 176]), h_cell = BaseCell, h_update = True\<rparr>),
        (''last_price'', \<lparr>h_display = tr (utf8 [230, 156, 128, 230, 150, 176, 228, 187, 183]), h_cell = BaseCell, h_update = True\<rparr>),
        (''volume'', \<lparr>h_display = tr (utf8 [230, 136, 144, 228, 186, 164, 233, 135, 143]), h_cell = BaseCell, h_update = True\<rparr>),
        (''open_price'', \<lparr>h_display = tr (utf8 [229, 188, 128, 231, 155, 152, 228, 187, 183]), h_cell = BaseCell, h_update = True\<rparr>),
        (''high_price'', \<lparr>h_display = tr (utf8 [230, 156, 128, 233, 171, 152, 228, 187, 183]), h_cell = BaseCell, h_update = True\<rparr>),
        (''low_price'', \<lparr>h_display = tr (utf8 [230, 156, 128, 228, 189, 142, 228, 187, 183]), h_cell = BaseCell, h_update = True\<rparr>),
        (''bid_price_1'', \<lparr>h_display = tr (utf8 [228, 185, 176, 49, 228, 187, 183]), h_cell = BidCell, h_update = True\<rparr>),
        (''bid_volume_1'', \<lparr>h_display = tr (utf8 [228, 185, 176, 49, 233, 135, 143]), h_cell = BidCell, h_update = True\<rparr>),
        (''ask_price_1'', \<lparr>h_display = tr (utf8 [229, 141, 150, 49, 228, 187, 183]), h_cell = AskCell, h_update = True\<rparr>),
        (''ask_volume_1'', \<lparr>h_display = tr (utf8 [229, 141, 150, 49, 233, 135, 143]), h_cell = AskCell, h_update = True\<rparr>),
        (''datetime'', \<lparr>h_display = tr (utf8 [230, 151, 182, 233, 151, 180]), h_cell = TimeCell, h_update = True\<rparr>),
        (''gateway_name'', \<lparr>h_display = tr (utf8 [230, 142, 165, 229, 143, 163]), h_cell = BaseCell, h_update = False\<rparr>)]\<rparr>"

definition OrderMonitor :: "(string \<Rightarrow> string) \<Rightarrow> monitor_class" where
  "OrderMonitor tr =
     \<lparr>data_key = ''vt_orderid'', sorting = True,
      headers = [
        (''gateway_name'', \<lparr>h_display = tr (utf8 [230, 142, 165, 229, 143, 163]), h_cell = BaseCell, h_update = False\<rparr>),
        (''symbol'', \<lparr>h_display = tr (utf8 [228, 187, 163, 231, 160, 129]), h_cell = BaseCell, h_update = False\<rparr>),
        (''exchange'', \<lparr>h_display = tr (utf8 [228, 186, 164, 230, 152, 147, 230, 137, 128]), h_cell = EnumCell, h_update = False\<rparr>),
        (''type'', \<lparr>h_display = tr (utf8 [231, 177, 187, 229, 158, 139]), h_cell = EnumCell, h_update = False\<rparr>),
        (''direction'', \<lparr>h_display = tr (utf8 [230, 150, 185, 229, 144, 145]), h_cell = DirectionCell, h_update = False\<rparr>),
        (''offset'', \<lparr>h_display = tr (utf8 [229, 188, 128, 229, 185, 179]), h_cell = EnumCell, h_update = False\<rparr>),
        (''price'', \<lparr>h_display = tr (utf8 [228, 187, 183, 230, 160, 188]), h_cell = BaseCell, h_update = False\<rparr>),
        (''volume'', \<lparr>h_display = tr (utf8 [230, 128, 187, 230, 149, 176, 233, 135, 143]), h_cell = BaseCell, h_update = False\<rparr>),
        (''traded'', \<lparr>h_display = tr (utf8 [229, 183, 178, 230, 136, 144, 228, 186, 164]), h_cell = BaseCell, h_update = True\<rparr>),
        (''status'', \<lparr>h_display = tr (utf8 [231, 138, 182, 230, 128, 129]), h_cell = EnumCell, h_update = True\<rparr>),
        (''datetime'', \<lparr>h_display = tr (utf8 [230, 151, 182, 233, 151, 180]), h_cell = TimeCell, h_update = True\<rparr>),
        (''reference'', \<lparr>h_display = tr (utf8 [230, 157, 165, 230, 186, 144]), h_cell = BaseCell, h_update = False\<rparr>)]\<rparr>"

subsection \<open>Export of the table\<close>

text \<open>
  The reads of the table that \<open>save_csv\<close> makes: \<^verbatim>\<open>rowCount()\<close>, \<^verbatim>\<open>isRowHidden(row)\<close>
  and \<^verbatim>\<open>item(row, column)\<close>, which is \<^verbatim>\<open>None\<close> where no item was set.
\<close>

definition rowCount :: "monitor \<Rightarrow> nat" where
  "rowCount m = length (table m)"

definition isRowHidden :: "monitor \<Rightarrow> nat \<Rightarrow> bool" where
  "isRowHidden m r = (r < length (table m) \<and> row_hidden (table m ! r))"

definition item :: "monitor \<Rightarrow> nat \<Rightarrow> nat \<Rightarrow> cell option" where
  "item m r c =
     (if r < length (table m) \<and> c < length (row_items (table m ! r)) then
        (case row_items (table m ! r) ! c of
           None \<Rightarrow> None
         | Some a \<Rightarrow> Some (heap m ! a))
      else None)"

text \<open>
  A file system maps a path to the rows written to the file; what \<^verbatim>\<open>csv.writer\<close> makes
  of a row (separators, quoting) is not modelled.  \<^verbatim>\<open>open(path, "w")\<close> truncates, so
  the file holds the rows of this call only.
\<close>

type_synonym files = "string \<Rightarrow> string list list option"

text \<open>The inner loop over \<^verbatim>\<open>range(self.columnCount())\<close>.\<close>

fun row_data :: "monitor \<Rightarrow> nat \<Rightarrow> nat list \<Rightarrow> string list" where
  "row_data m r [] = []"
| "row_data m r (c # cs) =
     (case item m r c of
        Some it \<Rightarrow> cell_text it
      | None \<Rightarrow> []) # row_data m r cs"

text \<open>The outer loop over \<^verbatim>\<open>range(self.rowCount())\<close>; \<open>written\<close> are the rows so far.\<close>

fun write_rows :: "monitor \<Rightarrow> nat list \<Rightarrow> string list list \<Rightarrow> string list list" where
  "write_rows m [] written = written"
| "write_rows m (r # rs) written =
     (if isRowHidden m r then write_rows m rs written
      else write_rows m rs (written @ [row_data m r [0..<column_count m]]))"

text \<open>
  \<open>save_csv\<close>; \<open>path\<close> is what the file dialog returned, empty when it was cancelled.
\<close>

definition save_csv :: "monitor_class \<Rightarrow> string \<Rightarrow> monitor \<Rightarrow> files \<Rightarrow> files" where
  "save_csv cfg path m fs =
     (if path = [] then fs
      else fs(path \<mapsto> write_rows m [0..<rowCount m] [map (\<lambda>(h, d). h_display d) (headers cfg)]))"

text \<open>What the claim speaks of: the labels, the visible rows, the text of a row.\<close>

definition display_labels :: "monitor_class \<Rightarrow> string list" where
  "display_labels cfg = map (h_display \<circ> snd) (headers cfg)"

definition visible_rows :: "monitor \<Rightarrow> nat list" where
  "visible_rows m = filter (\<lambda>r. \<not> row_hidden (table m ! r)) [0..<length (table m)]"

definition text_at :: "monitor \<Rightarrow> nat \<Rightarrow> nat \<Rightarrow> string" where
  "text_at m r c = (case item m r c of Some it \<Rightarrow> cell_text it | None \<Rightarrow> [])"

subsection \<open>The monitor of active orders\<close>

text \<open>
  Modelled from the spec: \<^verbatim>\<open>OrderData.is_active\<close> (\<^verbatim>\<open>vnpy/trader/object.py\<close> is not among
  the sources).  An order is active when its status is not terminal; the terminal
  statuses are AllTraded, Cancelled and Rejected.  Reading the status of an object
  without one raises.
\<close>

definition terminal_status :: "pyval \<Rightarrow> bool" where
  "terminal_status st =
     (st = PEnum ''Status'' ''AllTraded'' \<or> st = PEnum ''Status'' ''Cancelled''
      \<or> st = PEnum ''Status'' ''Rejected'')"

definition is_active :: "pydata \<Rightarrow> error + bool" where
  "is_active order =
     (case order ''status'' of
        None \<Rightarrow> Inl AttributeError
      | Some st \<Rightarrow> Inr (\<not> terminal_status st))"

text \<open>
  Qt's \<^verbatim>\<open>row(item)\<close>: the row that holds the item (\<open>None\<close> stands for Qt's \<open>-1\<close>), and
  \<^verbatim>\<open>showRow\<close>/\<^verbatim>\<open>hideRow\<close>, which do nothing for a row outside the table.
\<close>

definition row_of :: "monitor \<Rightarrow> nat \<Rightarrow> nat option" where
  "row_of m a =
     (case filter (\<lambda>r. Some a \<in> set (row_items (table m ! r))) [0..<length (table m)] of
        [] \<Rightarrow> None
      | r # rs \<Rightarrow> Some r)"

definition setRowHidden :: "nat option \<Rightarrow> bool \<Rightarrow> monitor \<Rightarrow> monitor" where
  "setRowHidden r b m =
     (case r of
        None \<Rightarrow> m
      | Some i \<Rightarrow>
          if i < length (table m)
          then m\<lparr>table := (table m)[i := (table m ! i)\<lparr>row_hidden := b\<rparr>]\<rparr>
          else m)"

text \<open>The number of rows of the table that are shown.\<close>

definition shown :: "monitor \<Rightarrow> nat" where
  "shown m = length (filter (\<lambda>r. \<not> row_hidden r) (table m))"

text \<open>
  \<open>ActiveOrderMonitor.process_event\<close>.  The class inherits the attributes of
  \<open>OrderMonitor\<close>; after the inherited \<open>process_event\<close> it looks the row up through
  \<^verbatim>\<open>self.cells[order.vt_orderid]["volume"]\<close> and shows or hides it.
\<close>

definition ActiveOrderMonitor_process_event ::
  "(pyval \<Rightarrow> string) \<Rightarrow> (string \<Rightarrow> string) \<Rightarrow> event \<Rightarrow> monitor \<Rightarrow> outcome \<times> monitor" where
  "ActiveOrderMonitor_process_event str tr ev m =
     (case process_event str (OrderMonitor tr) ev m of
        (Raised e, m') \<Rightarrow> (Raised e, m')
      | (Done, m') \<Rightarrow>
          (let order = ev_data ev in
           case order ''vt_orderid'' of
             None \<Rightarrow> (Raised AttributeError, m')
           | Some key \<Rightarrow>
               (case cells m' key of
                  None \<Rightarrow> (Raised KeyError, m')
                | Some row_cells \<Rightarrow>
                    (case map_of row_cells ''volume'' of
                       None \<Rightarrow> (Raised KeyError, m')
                     | Some a \<Rightarrow>
                         (let r = row_of m' a in
                          case is_active order of
                            Inl e \<Rightarrow> (Raised e, m')
                          | Inr True \<Rightarrow> (Done, setRowHidden r False m')
                          | Inr False \<Rightarrow> (Done, setRowHidden r True m'))))))"

subsection \<open>The invariant of the cells dict\<close>

text \<open>
  \<^verbatim>\<open>self.cells\<close> is written by \<open>insert_new_row\<close> only.  Its invariant: the entry of a
  key lists the updatable headers in order, each with the address of a live cell of the
  header's class.  It holds of an object whose \<^verbatim>\<open>self.cells\<close> is empty, and every call of
  \<open>process_event\<close> keeps it.
\<close>

definition entry_ok :: "cell list \<Rightarrow> string \<times> nat \<Rightarrow> string \<times> header \<Rightarrow> bool" where
  "entry_ok hp e hs = (fst e = fst hs \<and> snd e < length hp \<and> cell_class (hp ! snd e) = h_cell (snd hs))"

definition entry_new ::
  "(pyval \<Rightarrow> string) \<Rightarrow> pydata \<Rightarrow> cell list \<Rightarrow> string \<times> nat \<Rightarrow> string \<times> header \<Rightarrow> bool" where
  "entry_new str data hp e hs =
     (fst e = fst hs \<and> snd e < length hp \<and>
      (\<exists>content. data (fst hs) = Some content \<and>
         hp ! snd e = new_cell str (h_cell (snd hs)) content data))"

definition updatable :: "(string \<times> header) list \<Rightarrow> (string \<times> header) list" where
  "updatable hs = filter (\<lambda>p. h_update (snd p)) hs"

definition rc_ok :: "monitor_class \<Rightarrow> cell list \<Rightarrow> (string \<times> nat) list \<Rightarrow> bool" where
  "rc_ok cfg hp row_cells = list_all2 (entry_ok hp) row_cells (updatable (headers cfg))"

definition cells_ok :: "monitor_class \<Rightarrow> monitor \<Rightarrow> bool" where
  "cells_ok cfg m = (\<forall>key row_cells. cells m key = Some row_cells \<longrightarrow> rc_ok cfg (heap m) row_cells)"

subsection \<open>Example events\<close>

text \<open>
  An order of gateway SIM with the attributes the order monitor shows, and a tick; the
  identifier, traded volume and status of the order are left open.
\<close>

definition example_order :: "string \<Rightarrow> real \<Rightarrow> string \<Rightarrow> pydata" where
  "example_order oid traded st =
     map_of [
       (''gateway_name'', PStr ''SIM''), (''orderid'', PStr oid),
       (''vt_orderid'', PStr (''SIM.'' @ oid)), (''symbol'', PStr ''AAPL''),
       (''exchange'', PEnum ''Exchange'' ''NASDAQ''), (''type'', PEnum ''OrderType'' ''LIMIT''),
       (''direction'', PEnum ''Direction'' ''LONG''), (''offset'', PEnum ''Offset'' ''NONE''),
       (''price'', PFloat 100), (''volume'', PFloat 10), (''traded'', PFloat traded),
       (''status'', PEnum ''Status'' st), (''datetime'', PNone), (''reference'', PStr [])]"

definition order_event :: "string \<Rightarrow> real \<Rightarrow> string \<Rightarrow> event" where
  "order_event oid traded st = \<lparr>ev_type = ''eOrder.'', ev_data = example_order oid traded st\<rparr>"

definition example_tick :: "real \<Rightarrow> pydata" where
  "example_tick price =
     map_of [
       (''symbol'', PStr ''AAPL''), (''exchange'', PEnum ''Exchange'' ''NASDAQ''),
       (''vt_symbol'', PStr ''AAPL.NASDAQ''), (''name'', PStr ''Apple''),
       (''last_price'', PFloat price), (''volume'', PFloat 1000),
       (''open_price'', PFloat 99), (''high_price'', PFloat 101), (''low_price'', PFloat 98),
       (''bid_price_1'', PFloat 99), (''bid_volume_1'', PFloat 5),
       (''ask_price_1'', PFloat 101), (''ask_volume_1'', PFloat 7),
       (''datetime'', PNone), (''gateway_name'', PStr ''SIM'')]"

definition tick_event :: "real \<Rightarrow> event" where
  "tick_event price = \<lparr>ev_type = ''eTick.'', ev_data = example_tick price\<rparr>"

text \<open>A monitor with a key column and one updatable column, and an event for it.\<close>

definition kv_cfg :: monitor_class where
  "kv_cfg =
     \<lparr>data_key = ''k'', sorting = False,
      headers = [(''k'', \<lparr>h_display = ''Key'', h_cell = BaseCell, h_update = False\<rparr>),
                 (''v'', \<lparr>h_display = ''Value'', h_cell = BidCell, h_update = True\<rparr>)]\<rparr>"

definition kv_event :: "int \<Rightarrow> event" where
  "kv_event n = \<lparr>ev_type = ''eKv.'', ev_data = map_of [(''k'', PStr ''a''), (''v'', PInt n)]\<rparr>"

text \<open>
  An example of a monitor object that shows one row: the cells \<open>insert_new_row\<close>
  makes of \<open>data\<close>, one per header, the updatable ones registered under \<open>key\<close>.
\<close>

fun updatable_at :: "(string \<times> header) list \<Rightarrow> nat \<Rightarrow> (string \<times> nat) list" where
  "updatable_at [] column = []"
| "updatable_at ((h, setting) # hs) column =
     (if h_update setting then (h, column) # updatable_at hs (Suc column)
      else updatable_at hs (Suc column))"

definition cells_of ::
  "(pyval \<Rightarrow> string) \<Rightarrow> pydata \<Rightarrow> (string \<times> header) list \<Rightarrow> cell list" where
  "cells_of str data hs =
     map (\<lambda>(h, setting).
            new_cell str (h_cell setting) (case data h of Some content \<Rightarrow> content | None \<Rightarrow> PNone)
              data) hs"

definition one_row ::
  "(pyval \<Rightarrow> string) \<Rightarrow> monitor_class \<Rightarrow> pyval \<Rightarrow> pydata \<Rightarrow> monitor" where
  "one_row str cfg key data =
     \<lparr>table = [\<lparr>row_hidden = False, row_items = map Some [0..<length (headers cfg)]\<rparr>],
      heap = cells_of str data (headers cfg),
      cells = Map.empty(key \<mapsto> updatable_at (headers cfg) 0),
      sorting_enabled = sorting cfg, column_count = length (headers cfg)\<rparr>"

text \<open>An example: a one-column table with a shown row above a hidden one.\<close>

definition csv_cfg :: monitor_class where
  "csv_cfg =
     \<lparr>data_key = ''k'', sorting = False,
      headers = [(''k'', \<lparr>h_display = ''Key'', h_cell = BaseCell, h_update = False\<rparr>)]\<rparr>"

definition csv_monitor :: monitor where
  "csv_monitor =
     \<lparr>table = [\<lparr>row_hidden = False, row_items = [Some 1]\<rparr>,
               \<lparr>row_hidden = True, row_items = [Some 0]\<rparr>],
      heap = [BaseCell_init (\<lambda>v. ''a'') BaseCell PNone Map.empty,
              BaseCell_init (\<lambda>v. ''b'') BaseCell PNone Map.empty],
      cells = Map.empty, sorting_enabled = False, column_count = 1\<rparr>"

section \<open>The manual trading widget\<close>

text \<open>
  What a method of the widget does to the outside is the list of its effects, in order:
  the dialogs it opens and the calls it makes on the orchestration registry
  (\<^verbatim>\<open>self.main_engine\<close>, whose class is not among the sources).
\<close>

text \<open>
  A Python float: a finite one is represented by its value, the infinities and
  \<^verbatim>\<open>nan\<close> are values of their own.
\<close>

datatype pyfloat = Finite real | Infinity bool | NaN

record order_request =
  rq_symbol :: string
  rq_exchange :: string
  rq_direction :: string
  rq_type :: string
  rq_volume :: pyfloat
  rq_price :: pyfloat
  rq_offset :: string
  rq_reference :: string

record cancel_request =
  cr_orderid :: string
  cr_symbol :: string
  cr_exchange :: string

datatype effect =
    MessageBox_critical string string
  | main_engine_send_order order_request string
  | main_engine_get_all_active_orders
  | main_engine_cancel_order cancel_request string
  | main_engine_connect "(string \<times> pyval) list" string

subsection \<open>The builtin float on strings\<close>

text \<open>
  \<^verbatim>\<open>float(s)\<close> accepts, after stripping white space, an optional sign followed by
  \<^verbatim>\<open>inf\<close>, \<^verbatim>\<open>infinity\<close> or \<^verbatim>\<open>nan\<close> (in any case) or by a decimal number
  \<^verbatim>\<open>[digitpart] "." digitpart | digitpart ["."]\<close> with an optional exponent, where a
  digit part is digits with single underscores between them; on anything else it raises
  \<^verbatim>\<open>ValueError\<close>.  The model covers ASCII input.  A finite literal is given its exact
  decimal value (the rounding to a binary float is not modelled).
\<close>

definition is_space :: "char \<Rightarrow> bool" where
  "is_space c = (c \<in> set [CHR '' '', CHR 0x09, CHR 0x0A, CHR 0x0B, CHR 0x0C, CHR 0x0D])"

definition strip :: "string \<Rightarrow> string" where
  "strip s = rev (dropWhile is_space (rev (dropWhile is_space s)))"

definition is_digit :: "char \<Rightarrow> bool" where
  "is_digit c = (c \<in> set ''0123456789'')"

definition digit_val :: "char \<Rightarrow> nat" where
  "digit_val c = of_char c - 48"

definition ascii_lower :: "char \<Rightarrow> char" where
  "ascii_lower c =
     (case map_of (zip ''ABCDEFGHIJKLMNOPQRSTUVWXYZ'' ''abcdefghijklmnopqrstuvwxyz'') c of
        Some l \<Rightarrow> l
      | None \<Rightarrow> c)"

text \<open>The digits of a digit part after its first digit, and the rest of the input.\<close>

fun digits_tail :: "string \<Rightarrow> nat list \<Rightarrow> nat list \<times> string" where
  "digits_tail [] acc = (acc, [])"
| "digits_tail [c] acc = (if is_digit c then (acc @ [digit_val c], []) else (acc, [c]))"
| "digits_tail (c # d # ds) acc =
     (if is_digit c then digits_tail (d # ds) (acc @ [digit_val c])
      else if c = CHR ''_'' \<and> is_digit d then digits_tail ds (acc @ [digit_val d])
      else (acc, c # d # ds))"

definition digitpart :: "string \<Rightarrow> (nat list \<times> string) option" where
  "digitpart s =
     (case s of
        [] \<Rightarrow> None
      | c # cs \<Rightarrow> if is_digit c then Some (digits_tail cs [digit_val c]) else None)"

text \<open>The integer digits, the fraction digits and the rest of the input.\<close>

definition number :: "string \<Rightarrow> (nat list \<times> nat list \<times> string) option" where
  "number s =
     (case digitpart s of
        Some (ip, r) \<Rightarrow>
          (case r of
             [] \<Rightarrow> Some (ip, [], [])
           | c # r' \<Rightarrow>
               if c = CHR ''.'' then
                 (case digitpart r' of
                    Some (fp, r'') \<Rightarrow> Some (ip, fp, r'')
                  | None \<Rightarrow> Some (ip, [], r'))
               else Some (ip, [], r))
      | None \<Rightarrow>
          (case s of
             [] \<Rightarrow> None
           | c # r' \<Rightarrow>
               if c = CHR ''.'' then
                 (case digitpart r' of
                    Some (fp, r'') \<Rightarrow> Some ([], fp, r'')
                  | None \<Rightarrow> None)
               else None))"

definition digits_value :: "nat list \<Rightarrow> nat" where
  "digits_value ds = foldl (\<lambda>a d. 10 * a + d) 0 ds"

text \<open>The exponent that ends the literal (\<open>0\<close> when there is none).\<close>

definition exponent :: "string \<Rightarrow> int option" where
  "exponent r =
     (case r of
        [] \<Rightarrow> Some 0
      | c # r' \<Rightarrow>
          if c = CHR ''e'' \<or> c = CHR ''E'' then
            (let (neg, r'') =
               (case r' of
                  [] \<Rightarrow> (False, r')
                | sg # u \<Rightarrow>
                    if sg = CHR ''-'' then (True, u)
                    else if sg = CHR ''+'' then (False, u) else (False, r'))
             in case digitpart r'' of
                  Some (ds, []) \<Rightarrow> Some (if neg then - int (digits_value ds) else int (digits_value ds))
                | _ \<Rightarrow> None)
          else None)"

definition scale10 :: "real \<Rightarrow> int \<Rightarrow> real" where
  "scale10 x e = (if 0 \<le> e then x * 10 ^ nat e else x / 10 ^ nat (- e))"

definition py_float :: "string \<Rightarrow> error + pyfloat" where
  "py_float s =
     (let t = strip s;
          (neg, u) =
            (case t of
               [] \<Rightarrow> (False, t)
             | sg # r \<Rightarrow>
                 if sg = CHR ''-'' then (True, r)
                 else if sg = CHR ''+'' then (False, r) else (False, t));
          l = map ascii_lower u
      in if l = ''inf'' \<or> l = ''infinity'' then Inr (Infinity neg)
         else if l = ''nan'' then Inr NaN
         else
           (case number u of
              None \<Rightarrow> Inl ValueError
            | Some (ip, fp, r) \<Rightarrow>
                (case exponent r of
                   None \<Rightarrow> Inl ValueError
                 | Some e \<Rightarrow>
                     (let mant = real (digits_value ip)
                                 + real (digits_value fp) / 10 ^ length fp;
                          x = scale10 mant e
                      in Inr (Finite (if neg then - x else x))))))"

subsection \<open>Sending an order\<close>

text \<open>
  The enum classes \<^verbatim>\<open>Exchange\<close>, \<^verbatim>\<open>Direction\<close>, \<^verbatim>\<open>OrderType\<close> and \<^verbatim>\<open>Offset\<close> of
  \<^verbatim>\<open>vnpy.trader.constant\<close> are not among the sources; the values of their members are
  parameters.  \<^verbatim>\<open>Exchange(text)\<close> is the member with that value and raises
  \<^verbatim>\<open>ValueError\<close> when there is none; a member is represented by its value.
\<close>

record constants =
  Exchange_values :: "string list"
  Direction_values :: "string list"
  OrderType_values :: "string list"
  Offset_values :: "string list"

definition enum_by_value :: "string list \<Rightarrow> string \<Rightarrow> error + string" where
  "enum_by_value members v = (if v \<in> set members then Inr v else Inl ValueError)"

text \<open>
  The fields \<open>send_order\<close> reads: the texts of the three line edits and the current
  texts of the five combo boxes.
\<close>

record trading_widget =
  symbol_line :: string
  volume_line :: string
  price_line :: string
  exchange_combo :: string
  direction_combo :: string
  order_type_combo :: string
  offset_combo :: string
  gateway_combo :: string

text \<open>
  \<open>TradingWidget.send_order\<close>.  The message ids of the two dialogs are given by their
  UTF-8 bytes, \<open>tr\<close> is the translation function.  The keyword arguments of
  \<^verbatim>\<open>OrderRequest(...)\<close> are evaluated in the order written.
\<close>

definition send_order ::
  "constants \<Rightarrow> (string \<Rightarrow> string) \<Rightarrow> trading_widget \<Rightarrow> outcome \<times> effect list" where
  "send_order k tr w =
     (let symbol = symbol_line w in
      if symbol = [] then
        (Done, [MessageBox_critical (tr (utf8 [229, 167, 148, 230, 137, 152, 229, 164, 177, 232, 180, 165]))
                  (tr (utf8 [232, 175, 183, 232, 190, 147, 229, 133, 165, 229, 144, 136, 231,
                             186, 166, 228, 187, 163, 231, 160, 129]))])
      else
        (let volume_text = volume_line w in
         if volume_text = [] then
           (Done, [MessageBox_critical (tr (utf8 [229, 167, 148, 230, 137, 152, 229, 164, 177, 232, 180, 165]))
                     (tr (utf8 [232, 175, 183, 232, 190, 147, 229, 133, 165, 229, 167, 148, 230,
                                137, 152, 230, 149, 176, 233, 135, 143]))])
         else
           (case py_float volume_text of
              Inl e \<Rightarrow> (Raised e, [])
            | Inr volume \<Rightarrow>
                (let price_text = price_line w in
                 case (if price_text = [] then Inr (Finite 0) else py_float price_text) of
                   Inl e \<Rightarrow> (Raised e, [])
                 | Inr price \<Rightarrow>
                     (case enum_by_value (Exchange_values k) (exchange_combo w) of
                        Inl e \<Rightarrow> (Raised e, [])
                      | Inr exchange \<Rightarrow>
                          (case enum_by_value (Direction_values k) (direction_combo w) of
                             Inl e \<Rightarrow> (Raised e, [])
                           | Inr direction \<Rightarrow>
                               (case enum_by_value (OrderType_values k) (order_type_combo w) of
                                  Inl e \<Rightarrow> (Raised e, [])
                                | Inr order_type \<Rightarrow>
                                    (case enum_by_value (Offset_values k) (offset_combo w) of
                                       Inl e \<Rightarrow> (Raised e, [])
                                     | Inr offset \<Rightarrow>
                                         (let req =
                                            \<lparr>rq_symbol = symbol, rq_exchange = exchange,
                                             rq_direction = direction, rq_type = order_type,
                                             rq_volume = volume, rq_price = price,
                                             rq_offset = offset,
                                             rq_reference = ''ManualTrading''\<rparr>;
                                              gateway_name = gateway_combo w
                                          in (Done, [main_engine_send_order req gateway_name]))))))))))"

text \<open>Example constants and widget states.\<close>

definition example_constants :: constants where
  "example_constants =
     \<lparr>Exchange_values = [''NASDAQ'', ''SSE''], Direction_values = [''LONG'', ''SHORT''],
      OrderType_values = [''LIMIT'', ''MARKET''], Offset_values = [''NONE'', ''OPEN'', ''CLOSE'']\<rparr>"

definition example_widget :: "string \<Rightarrow> string \<Rightarrow> string \<Rightarrow> trading_widget" where
  "example_widget symbol volume price =
     \<lparr>symbol_line = symbol, volume_line = volume, price_line = price,
      exchange_combo = ''NASDAQ'', direction_combo = ''LONG'', order_type_combo = ''LIMIT'',
      offset_combo = ''NONE'', gateway_combo = ''SIM''\<rparr>"

subsection \<open>Cancelling all orders\<close>

text \<open>
  Modelled from the spec: \<^verbatim>\<open>OrderData\<close> and its \<^verbatim>\<open>create_cancel_request\<close>
  (\<^verbatim>\<open>vnpy/trader/object.py\<close> is not among the sources).  An order carries its gateway
  name, order id, symbol and exchange; its cancel request carries the order id, the
  symbol and the exchange.
\<close>

record order_data =
  od_gateway_name :: string
  od_orderid :: string
  od_symbol :: string
  od_exchange :: string

definition create_cancel_request :: "order_data \<Rightarrow> cancel_request" where
  "create_cancel_request order =
     \<lparr>cr_orderid = od_orderid order, cr_symbol = od_symbol order,
      cr_exchange = od_exchange order\<rparr>"

text \<open>
  \<open>TradingWidget.cancel_all\<close>; \<open>order_list\<close> is what the registry's
  \<^verbatim>\<open>get_all_active_orders()\<close> returned.  The loop appends one call per order.
\<close>

fun cancel_orders :: "order_data list \<Rightarrow> effect list \<Rightarrow> effect list" where
  "cancel_orders [] calls = calls"
| "cancel_orders (order # rest) calls =
     cancel_orders rest
       (calls @ [main_engine_cancel_order (create_cancel_request order) (od_gateway_name order)])"

definition cancel_all :: "order_data list \<Rightarrow> effect list" where
  "cancel_all order_list = cancel_orders order_list [main_engine_get_all_active_orders]"

section \<open>The connection dialog\<close>

text \<open>
  A form widget of the dialog: a combo box with its items and current index, a check box
  with its state, or a line edit with its text.  \<^verbatim>\<open>self.widgets\<close> maps a field name to
  the pair of the widget and a string, as \<open>init_ui\<close> stores it
  (\<^verbatim>\<open>(combo, "currentText")\<close>, \<^verbatim>\<open>(checkbox, "isChecked")\<close>, \<^verbatim>\<open>(line, "text")\<close>).
\<close>

datatype widget = QComboBox "string list" nat | QCheckBox bool | QLineEdit string

type_synonym settings = "(string \<times> pyval) list"

record connect_dialog =
  cd_gateway_name :: string
  cd_filename :: string
  cd_widgets :: "(string \<times> widget \<times> string) list"

text \<open>
  Modelled from the spec: \<^verbatim>\<open>load_json\<close> and \<^verbatim>\<open>save_json\<close> of \<^verbatim>\<open>vnpy.trader.utility\<close>
  (not among the sources).  The settings of a gateway are persisted as a flat record from
  key to value under a file name; a file that was never saved loads as the empty record.
\<close>

type_synonym json_files = "string \<Rightarrow> settings option"

definition load_json :: "json_files \<Rightarrow> string \<Rightarrow> settings" where
  "load_json fs filename = (case fs filename of None \<Rightarrow> [] | Some setting \<Rightarrow> setting)"

definition save_json :: "json_files \<Rightarrow> string \<Rightarrow> settings \<Rightarrow> json_files" where
  "save_json fs filename setting = fs(filename \<mapsto> setting)"

text \<open>\<^verbatim>\<open>setting.get(field_name, default)\<close>\<close>

definition dict_get :: "settings \<Rightarrow> string \<Rightarrow> pyval \<Rightarrow> pyval" where
  "dict_get setting field_name default_value =
     (case map_of setting field_name of None \<Rightarrow> default_value | Some v \<Rightarrow> v)"

text \<open>\<^verbatim>\<open>field_value.index(saved_value) if saved_value in field_value else 0\<close>\<close>

fun index_or_0 :: "pyval list \<Rightarrow> pyval \<Rightarrow> nat" where
  "index_or_0 [] v = 0"
| "index_or_0 (x # xs) v = (if x = v then 0 else if v \<in> set xs then Suc (index_or_0 xs v) else 0)"

text \<open>The items of a combo box must be strings (\<^verbatim>\<open>addItems\<close> raises otherwise).\<close>

fun item_texts :: "pyval list \<Rightarrow> error + string list" where
  "item_texts [] = Inr []"
| "item_texts (PStr s # xs) = (case item_texts xs of Inl e \<Rightarrow> Inl e | Inr ss \<Rightarrow> Inr (s # ss))"
| "item_texts (x # xs) = Inl TypeError"

text \<open>
  The loop of \<open>ConnectDialog.init_ui\<close> over \<^verbatim>\<open>default_setting.items()\<close>; \<open>setting\<close> is
  the record loaded from the file.  A list makes a combo box (an empty list is skipped),
  a bool a check box, anything else a line edit with \<^verbatim>\<open>str\<close> of the value.
\<close>

fun init_fields ::
  "(pyval \<Rightarrow> string) \<Rightarrow> settings \<Rightarrow> settings \<Rightarrow> (string \<times> widget \<times> string) list
     \<Rightarrow> error + (string \<times> widget \<times> string) list" where
  "init_fields str setting [] widgets = Inr widgets"
| "init_fields str setting ((field_name, PList field_value) # rest) widgets =
     (if field_value = [] then init_fields str setting rest widgets
      else
        (case item_texts field_value of
           Inl e \<Rightarrow> Inl e
         | Inr items \<Rightarrow>
             (let ix = (if setting \<noteq> []
                        then index_or_0 field_value
                               (dict_get setting field_name (field_value ! 0))
                        else 0)
              in init_fields str setting rest
                   (AList.update field_name (QComboBox items ix, ''currentText'') widgets))))"
| "init_fields str setting ((field_name, PBool field_value) # rest) widgets =
     (case (if setting \<noteq> [] then dict_get setting field_name (PBool field_value)
            else PBool field_value) of
        PBool checked \<Rightarrow>
          init_fields str setting rest
            (AList.update field_name (QCheckBox checked, ''isChecked'') widgets)
      | _ \<Rightarrow> Inl TypeError)"
| "init_fields str setting ((field_name, field_value) # rest) widgets =
     (let t = (if setting \<noteq> [] then str (dict_get setting field_name field_value)
               else str field_value)
      in init_fields str setting rest
           (AList.update field_name (QLineEdit t, ''text'') widgets))"

text \<open>
  In \<open>connect\<close> the second component of a \<^verbatim>\<open>self.widgets\<close> entry is named
  \<^verbatim>\<open>field_type\<close>, compared with the type \<^verbatim>\<open>list\<close> and called.  It is a string: a string
  is not the type \<^verbatim>\<open>list\<close>, and calling it raises \<^verbatim>\<open>TypeError\<close>.
\<close>

definition str_is_list_type :: "string \<Rightarrow> bool" where
  "str_is_list_type field_type = False"

definition call_str_object :: "string \<Rightarrow> pyval list \<Rightarrow> error + pyval" where
  "call_str_object field_type args = Inl TypeError"

text \<open>
  \<^verbatim>\<open>widget.currentText()\<close> and \<^verbatim>\<open>widget.text()\<close>: a combo box has no \<^verbatim>\<open>text\<close> method,
  the text of a check box is its (empty) label.
\<close>

definition currentText :: "widget \<Rightarrow> error + string" where
  "currentText w =
     (case w of
        QComboBox items ix \<Rightarrow> Inr (if ix < length items then items ! ix else [])
      | _ \<Rightarrow> Inl AttributeError)"

definition widget_text :: "widget \<Rightarrow> error + string" where
  "widget_text w =
     (case w of
        QLineEdit t \<Rightarrow> Inr t
      | QCheckBox b \<Rightarrow> Inr []
      | QComboBox items ix \<Rightarrow> Inl AttributeError)"

text \<open>
  The loop of \<open>ConnectDialog.connect\<close> over \<^verbatim>\<open>self.widgets.items()\<close>.  In
  \<^verbatim>\<open>field_type(line.text())\<close> the argument is evaluated before the call; only
  \<^verbatim>\<open>ValueError\<close> is caught, and then \<^verbatim>\<open>field_type()\<close> is called.
\<close>

fun connect_fields ::
  "(string \<times> widget \<times> string) list \<Rightarrow> settings \<Rightarrow> error + settings" where
  "connect_fields [] setting = Inr setting"
| "connect_fields ((field_name, w, field_type) # rest) setting =
     (case (if str_is_list_type field_type then
              (case currentText w of Inl e \<Rightarrow> Inl e | Inr t \<Rightarrow> Inr (PStr t))
            else
              (case widget_text w of
                 Inl e \<Rightarrow> Inl e
               | Inr t \<Rightarrow>
                   (case call_str_object field_type [PStr t] of
                      Inl ValueError \<Rightarrow> call_str_object field_type []
                    | r \<Rightarrow> r))) of
        Inl e \<Rightarrow> Inl e
      | Inr field_value \<Rightarrow> connect_fields rest (AList.update field_name field_value setting))"

text \<open>
  \<open>ConnectDialog.connect\<close>: the settings are saved under the file name of the dialog
  and forwarded to the registry's \<^verbatim>\<open>connect\<close>.
\<close>

definition connect :: "connect_dialog \<Rightarrow> json_files \<Rightarrow> outcome \<times> json_files \<times> effect list" where
  "connect d fs =
     (case connect_fields (cd_widgets d) [] of
        Inl e \<Rightarrow> (Raised e, fs, [])
      | Inr setting \<Rightarrow>
          (Done, save_json fs (cd_filename d) setting,
           [main_engine_connect setting (cd_gateway_name d)]))"

section \<open>Importing the chart widget module\<close>

text \<open>
  Importing a module executes its top-level statements in order.  For the question
  whether that raises \<^verbatim>\<open>NameError\<close> a statement matters by the names it binds and the
  expressions it evaluates, and an expression by the names it loads, in evaluation order.
  An \<^verbatim>\<open>import\<close> statement is taken to succeed and binds its names.  A \<^verbatim>\<open>def\<close> evaluates
  its defaults and annotations and binds its name; its body is not executed.
\<close>

datatype expr = Const | Name string | Attr expr string | Call expr "expr list" | Op "expr list"

datatype cstmt = CExpr expr | CAssign string expr | CDef string "expr list"

datatype stmt = Import "string list" | Expr expr | ClassDef string "expr list" "cstmt list"

text \<open>Evaluating an expression where the names \<open>ns\<close> are bound: the first error, if any.\<close>

fun load_names :: "string list \<Rightarrow> expr \<Rightarrow> error option"
  and load_names_list :: "string list \<Rightarrow> expr list \<Rightarrow> error option" where
  "load_names ns Const = None"
| "load_names ns (Name n) = (if n \<in> set ns then None else Some (NameError n))"
| "load_names ns (Attr e a) = load_names ns e"
| "load_names ns (Call f args) =
     (case load_names ns f of Some err \<Rightarrow> Some err | None \<Rightarrow> load_names_list ns args)"
| "load_names ns (Op es) = load_names_list ns es"
| "load_names_list ns [] = None"
| "load_names_list ns (e # es) =
     (case load_names ns e of Some err \<Rightarrow> Some err | None \<Rightarrow> load_names_list ns es)"

text \<open>
  A class body looks a name up among the names of the class, then the globals of the
  module, then the builtins.
\<close>

fun exec_class_body ::
  "string list \<Rightarrow> string list \<Rightarrow> cstmt list \<Rightarrow> string list \<Rightarrow> error option" where
  "exec_class_body builtins globals [] locals = None"
| "exec_class_body builtins globals (CExpr e # rest) locals =
     (case load_names (locals @ globals @ builtins) e of
        Some err \<Rightarrow> Some err
      | None \<Rightarrow> exec_class_body builtins globals rest locals)"
| "exec_class_body builtins globals (CAssign n e # rest) locals =
     (case load_names (locals @ globals @ builtins) e of
        Some err \<Rightarrow> Some err
      | None \<Rightarrow> exec_class_body builtins globals rest (locals @ [n]))"
| "exec_class_body builtins globals (CDef n es # rest) locals =
     (case load_names_list (locals @ globals @ builtins) es of
        Some err \<Rightarrow> Some err
      | None \<Rightarrow> exec_class_body builtins globals rest (locals @ [n]))"

text \<open>The statements of a module; the result carries the globals bound so far.\<close>

fun exec_module :: "string list \<Rightarrow> stmt list \<Rightarrow> string list \<Rightarrow> outcome \<times> string list" where
  "exec_module builtins [] globals = (Done, globals)"
| "exec_module builtins (Import ns # rest) globals = exec_module builtins rest (globals @ ns)"
| "exec_module builtins (Expr e # rest) globals =
     (case load_names (globals @ builtins) e of
        Some err \<Rightarrow> (Raised err, globals)
      | None \<Rightarrow> exec_module builtins rest globals)"
| "exec_module builtins (ClassDef n bases body # rest) globals =
     (case load_names_list (globals @ builtins) bases of
        Some err \<Rightarrow> (Raised err, globals)
      | None \<Rightarrow>
          (case exec_class_body builtins globals body
                  [''__module__'', ''__qualname__''] of
             Some err \<Rightarrow> (Raised err, globals)
           | None \<Rightarrow> exec_module builtins rest (globals @ [n])))"

text \<open>The names of Python's \<^verbatim>\<open>builtins\<close> module and the globals a module starts with.\<close>

definition python_builtins :: "string list" where
  "python_builtins =
      [''ArithmeticError'', ''AssertionError'', ''AttributeError'', ''BaseException'',
       ''BaseExceptionGroup'', ''BlockingIOError'', ''BrokenPipeError'', ''BufferError'',
       ''BytesWarning'', ''ChildProcessError'', ''ConnectionAbortedError'',
       ''ConnectionError'', ''ConnectionRefusedError'', ''ConnectionResetError'',
       ''DeprecationWarning'', ''EOFError'', ''Ellipsis'', ''EncodingWarning'',
       ''EnvironmentError'', ''Exception'', ''ExceptionGroup'', ''False'',
       ''FileExistsError'', ''FileNotFoundError'', ''FloatingPointError'',
       ''FutureWarning'', ''GeneratorExit'', ''IOError'', ''ImportError'',
       ''ImportWarning'', ''IndentationError'', ''IndexError'', ''InterruptedError'',
       ''IsADirectoryError'', ''KeyError'', ''KeyboardInterrupt'', ''LookupError'',
       ''MemoryError'', ''ModuleNotFoundError'', ''NameError'', ''None'',
       ''NotADirectoryError'', ''NotImplemented'', ''NotImplementedError'', ''OSError'',
       ''OverflowError'', ''PendingDeprecationWarning'', ''PermissionError'',
       ''ProcessLookupError'', ''RecursionError'', ''ReferenceError'', ''ResourceWarning'',
       ''RuntimeError'', ''RuntimeWarning'', ''StopAsyncIteration'', ''StopIteration'',
       ''SyntaxError'', ''SyntaxWarning'', ''SystemError'', ''SystemExit'', ''TabError'',
       ''TimeoutError'', ''True'', ''TypeError'', ''UnboundLocalError'',
       ''UnicodeDecodeError'', ''UnicodeEncodeError'', ''UnicodeError'',
       ''UnicodeTranslateError'', ''UnicodeWarning'', ''UserWarning'', ''ValueError'',
       ''Warning'', ''ZeroDivisionError'', ''__build_class__'', ''__debug__'', ''__doc__'',
       ''__import__'', ''__loader__'', ''__name__'', ''__package__'', ''__spec__'',
       ''abs'', ''aiter'', ''all'', ''anext'', ''any'', ''ascii'', ''bin'', ''bool'',
       ''breakpoint'', ''bytearray'', ''bytes'', ''callable'', ''chr'', ''classmethod'',
       ''compile'', ''complex'', ''copyright'', ''credits'', ''delattr'', ''dict'',
       ''dir'', ''divmod'', ''enumerate'', ''eval'', ''exec'', ''exit'', ''filter'',
       ''float'', ''format'', ''frozenset'', ''getattr'', ''globals'', ''hasattr'',
       ''hash'', ''help'', ''hex'', ''id'', ''input'', ''int'', ''isinstance'',
       ''issubclass'', ''iter'', ''len'', ''license'', ''list'', ''locals'', ''map'',
       ''max'', ''memoryview'', ''min'', ''next'', ''object'', ''oct'', ''open'', ''ord'',
       ''pow'', ''print'', ''property'', ''quit'', ''range'', ''repr'', ''reversed'',
       ''round'', ''set'', ''setattr'', ''slice'', ''sorted'', ''staticmethod'', ''str'',
       ''sum'', ''super'', ''tuple'', ''type'', ''vars'', ''zip'']"

definition module_globals :: "string list" where
  "module_globals =
     [''__name__'', ''__doc__'', ''__package__'', ''__loader__'', ''__spec__'', ''__file__'',
      ''__cached__'', ''__builtins__'']"

text \<open>
  \<^verbatim>\<open>vnpy/chart/widget.py\<close>: its imports, the call \<^verbatim>\<open>pg.setConfigOptions(antialias=True)\<close>
  and the classes \<open>ChartWidget\<close> and \<open>ChartCursor\<close> with the statements of their bodies.
\<close>

definition chart_widget_module :: "stmt list" where
  "chart_widget_module =
     [Import [''datetime''],
      Import [''sys''],
      Import [''pg''],
      Import [''plt''],
      Import [''QtGui'', ''QtWidgets'', ''QtCore''],
      Import [''BarData''],
      Import [''BarManager''],
      Import [''GREY_COLOR'', ''WHITE_COLOR'', ''CURSOR_COLOR'', ''BLACK_COLOR'',
          ''to_int'', ''NORMAL_FONT''],
      Import [''DatetimeAxis''],
      Import [''ChartItem''],
      Expr (Call (Attr (Name ''pg'') ''setConfigOptions'') [Const]),
      ClassDef ''ChartWidget'' [(Attr (Name ''QtWidgets'') ''QWidget'')]
       [CExpr Const,
        CAssign ''signal_new_bar'' (Call (Attr (Name ''QtCore'') ''Signal'') [(Name
            ''ObjectDict'')]),
        CDef ''__init__'' [Const, (Attr (Name ''QtWidgets'') ''QWidget''), Const],
        CDef ''init_ui'' [Const],
        CDef ''_get_new_x_axis'' [(Name ''DatetimeAxis'')],
        CDef ''add_cursor'' [Const],
        CDef ''add_plot'' [Const, Const, Const, (Name ''str''), (Name ''int''), (Op [(Name
            ''int''), Const]), (Name ''bool''), Const],
        CDef ''add_item'' [(Op [(Name ''type''), (Name ''ChartItem'')]), (Name ''str''),
            (Name ''str''), Const],
        CDef ''get_plot'' [(Name ''str''), (Attr (Name ''pg'') ''PlotItem'')],
        CDef ''get_all_plots'' [(Op [(Name ''list''), (Attr (Name ''pg'') ''PlotItem'')])],
        CDef ''clear_all'' [Const],
        CDef ''update_history'' [(Op [(Name ''list''), (Name ''BarData'')]), Const],
        CDef ''update_bar'' [(Name ''BarData''), Const],
        CDef ''_update_plot_limits'' [Const],
        CDef ''_update_x_range'' [Const],
        CDef ''_update_y_range'' [Const],
        CDef ''paintEvent'' [(Attr (Name ''QtGui'') ''QPaintEvent''), Const],
        CDef ''keyPressEvent'' [(Attr (Name ''QtGui'') ''QKeyEvent''), Const],
        CDef ''wheelEvent'' [(Attr (Name ''QtGui'') ''QWheelEvent''), Const],
        CDef ''_on_key_left'' [Const],
        CDef ''_on_key_right'' [Const],
        CDef ''_on_key_down'' [Const],
        CDef ''_on_key_up'' [Const],
        CDef ''move_to_right'' [Const],
        CDef ''refresh'' [(Op [(Name ''List''), (Name ''ObjectDict'')]), Const]],
      ClassDef ''ChartCursor'' [(Attr (Name ''QtCore'') ''QObject'')]
       [CExpr Const,
        CDef ''__init__'' [(Name ''ChartWidget''), (Name ''BarManager''), (Op [(Name
            ''dict''), (Op [(Name ''str''), (Attr (Name ''pg'') ''GraphicsObject'')])]), (Op
            [(Name ''dict''), (Op [(Name ''ChartItem''), (Attr (Name ''pg'')
            ''GraphicsObject'')])]), Const],
        CDef ''_init_ui'' [Const],
        CDef ''_init_line'' [Const],
        CDef ''_init_label'' [Const],
        CDef ''_init_info'' [Const],
        CDef ''_connect_signal'' [Const],
        CDef ''_mouse_moved'' [(Name ''tuple''), Const],
        CDef ''_update_line'' [Const],
        CDef ''_update_label'' [Const],
        CDef ''update_info'' [Const],
        CDef ''move_right'' [Const],
        CDef ''move_left'' [Const],
        CDef ''_update_after_move'' [Const],
        CDef ''clear_all'' [Const]]]"

section \<open>The constructors of the monitors and of the connection dialog\<close>

text \<open>
  \<^verbatim>\<open>vnpy/trader/ui/widget.py\<close>: the names its top-level statements bind (its imports,
  the colour constants and its classes).  With the names a module starts with and the
  builtins, they are the names a function of the module can load as a global once the
  module is imported.
\<close>

definition widget_module_names :: "string list" where
  "widget_module_names =
     [''csv'', ''platform'', ''Enum'', ''cast'', ''Any'', ''Dict'', ''List'', ''copy'',
      ''get_localzone_name'', ''datetime'', ''metadata'', ''QtCore'', ''QtGui'',
      ''QtWidgets'', ''Qt'', ''Direction'', ''Exchange'', ''Offset'', ''OrderType'',
      ''MainEngine'', ''Event'', ''EventEngine'', ''EVENT_QUOTE'', ''EVENT_TICK'',
      ''EVENT_TRADE'', ''EVENT_ORDER'', ''EVENT_POSITION'', ''EVENT_ACCOUNT'',
      ''EVENT_LOG'', ''OrderRequest'', ''SubscribeRequest'', ''CancelRequest'',
      ''ContractData'', ''PositionData'', ''OrderData'', ''QuoteData'', ''TickData'',
      ''load_json'', ''save_json'', ''get_digits'', ''ZoneInfo'', ''SETTING_FILENAME'',
      ''SETTINGS'', ''_'', ''COLOR_LONG'', ''COLOR_SHORT'', ''COLOR_BID'',
      ''COLOR_ASK'', ''COLOR_BLACK'', ''BaseCell'', ''EnumCell'', ''DirectionCell'',
      ''BidCell'', ''AskCell'', ''PnlCell'', ''TimeCell'', ''DateCell'', ''MsgCell'',
      ''BaseMonitor'', ''TickMonitor'', ''LogMonitor'', ''TradeMonitor'',
      ''OrderMonitor'', ''OrderDelegate'', ''PositionMonitor'', ''AccountMonitor'',
      ''QuoteMonitor'', ''ConnectDialog'', ''TradingWidget'', ''ActiveOrderMonitor'',
      ''ContractManager'', ''AboutDialog'', ''GlobalDialog'']"

text \<open>
  The attributes that \<open>BaseMonitor\<close> and its subclasses in the module define in their
  class bodies or assign on \<^verbatim>\<open>self\<close>.  Every other attribute of a monitor is inherited
  from Qt's \<^verbatim>\<open>QTableWidget\<close>, whose members are named in camel case; reading an attribute
  that is in neither raises.
\<close>

definition monitor_attributes :: "string list" where
  "monitor_attributes =
     [''event_type'', ''data_key'', ''sorting'', ''headers'', ''signal'', ''__init__'',
      ''init_ui'', ''init_table'', ''init_menu'', ''copy_selection'', ''refresh'',
      ''register_event'', ''process_event'', ''insert_new_row'', ''update_old_row'',
      ''resize_columns'', ''save_csv'', ''contextMenuEvent'', ''save_setting'',
      ''load_setting'', ''event_engine'', ''cells'', ''rows'', ''handlers'', ''menu'',
      ''filter_orders'', ''filter_combo'', ''search_edit'', ''cancel_quote'']"

definition monitor_getattr :: "string \<Rightarrow> outcome" where
  "monitor_getattr n = (if n \<in> set monitor_attributes then Done else Raised AttributeError)"

text \<open>
  \<open>BaseMonitor.init_table\<close>.  The calls that style the table are presentation; the
  columns are set to the headers, and for a sorting monitor the argument
  \<^verbatim>\<open>self.sorting_change\<close> of \<^verbatim>\<open>connect\<close> is read.
\<close>

definition init_table :: "monitor_class \<Rightarrow> monitor \<Rightarrow> outcome \<times> monitor" where
  "init_table cfg m =
     (let m1 = m\<lparr>column_count := length (headers cfg)\<rparr>
      in if sorting cfg then (monitor_getattr ''sorting_change'', m1) else (Done, m1))"

text \<open>
  \<open>BaseMonitor.init_menu\<close> by the global names it loads, in evaluation order: the menu,
  four actions with their translated labels, and the icons of the actions.  The calls into
  Qt are taken to succeed.
\<close>

definition init_menu_loads :: "expr list" where
  "init_menu_loads =
     [Call (Attr (Name ''QtWidgets'') ''QMenu'') [Const],
      Call (Attr (Name ''QtWidgets'') ''QAction'') [Call (Name ''_'') [Const], Const],
      Call (Attr (Name ''QtWidgets'') ''QAction'') [Call (Name ''_'') [Const], Const],
      Call (Attr (Name ''QtWidgets'') ''QAction'') [Call (Name ''_'') [Const], Const],
      Call (Attr (Name ''QtWidgets'') ''QAction'') [Call (Name ''_'') [Const], Const],
      Call (Attr (Name ''QtGui'') ''QIcon'') [Call (Name ''get_icon_path'') [Name ''__file__'', Const]],
      Call (Attr (Name ''QtGui'') ''QIcon'') [Call (Name ''get_icon_path'') [Name ''__file__'', Const]],
      Call (Attr (Name ''QtGui'') ''QIcon'') [Call (Name ''get_icon_path'') [Name ''__file__'', Const]],
      Call (Attr (Name ''QtGui'') ''QIcon'') [Call (Name ''get_icon_path'') [Name ''__file__'', Const]]]"

definition init_menu :: "monitor \<Rightarrow> outcome \<times> monitor" where
  "init_menu m =
     (case load_names_list (module_globals @ widget_module_names @ python_builtins)
             init_menu_loads of
        Some e \<Rightarrow> (Raised e, m)
      | None \<Rightarrow> (Done, m))"

text \<open>
  \<open>BaseMonitor.init_ui\<close>: \<open>init_table\<close>, then \<open>init_menu\<close>.  \<open>OrderMonitor.init_ui\<close>
  (inherited by \<open>ActiveOrderMonitor\<close>) starts with \<^verbatim>\<open>super().init_ui()\<close>.
\<close>

definition init_ui :: "monitor_class \<Rightarrow> monitor \<Rightarrow> outcome \<times> monitor" where
  "init_ui cfg m =
     (case init_table cfg m of
        (Raised e, m1) \<Rightarrow> (Raised e, m1)
      | (Done, m1) \<Rightarrow> init_menu m1)"

text \<open>
  \<open>BaseMonitor.__init__\<close>: an empty table, empty dicts, then \<open>init_ui\<close> and
  \<open>register_event\<close>, which connects \<open>process_event\<close> to the signal and registers the
  signal with the event engine.  An exception leaves the caller without a monitor, and
  without a handler registered for the events.
\<close>

definition BaseMonitor_init :: "monitor_class \<Rightarrow> error + monitor" where
  "BaseMonitor_init cfg =
     (case init_ui cfg \<lparr>table = [], heap = [], cells = Map.empty, sorting_enabled = False,
                         column_count = 0\<rparr> of
        (Raised e, m) \<Rightarrow> Inl e
      | (Done, m) \<Rightarrow> Inr m)"

text \<open>
  \<open>ConnectDialog.__init__\<close> and \<open>init_ui\<close>: the window title, the icon of the dialog
  (\<^verbatim>\<open>QtGui.QIcon(get_icon_path(__file__, "connect.ico"))\<close>), then the form;
  \<open>default_setting\<close> is the \<^verbatim>\<open>default_setting\<close> of the gateway's class.  \<^verbatim>\<open>lower()\<close> is
  modelled on ASCII.
\<close>

definition ConnectDialog_init ::
  "(pyval \<Rightarrow> string) \<Rightarrow> settings \<Rightarrow> string \<Rightarrow> json_files \<Rightarrow> error + connect_dialog" where
  "ConnectDialog_init str default_setting gateway_name fs =
     (let filename = ''connect_'' @ map ascii_lower gateway_name @ ''.json''
      in case load_names_list (module_globals @ widget_module_names @ python_builtins)
                [Call (Name ''_'') [Const],
                 Call (Attr (Name ''QtGui'') ''QIcon'')
                   [Call (Name ''get_icon_path'') [Name ''__file__'', Const]]] of
           Some e \<Rightarrow> Inl e
         | None \<Rightarrow>
             (case init_fields str (load_json fs filename) default_setting [] of
                Inl e \<Rightarrow> Inl e
              | Inr widgets \<Rightarrow>
                  Inr \<lparr>cd_gateway_name = gateway_name, cd_filename = filename,
                       cd_widgets = widgets\<rparr>))"

section \<open>The event dispatcher\<close>

text \<open>
  Modelled from the spec: the event dispatcher (\<^verbatim>\<open>vnpy/event/engine.py\<close> is not among the
  sources).  \<^verbatim>\<open>register\<close> adds a handler to the subscribers of an event type unless it is
  there already, \<^verbatim>\<open>unregister\<close> removes it, \<^verbatim>\<open>put\<close> appends an event to the queue and
  returns, and the single delivery worker takes the event at the head of the queue and
  calls the subscribers of its type one after the other.  The threads are modelled by
  interleaving: a run of the dispatcher is any sequence of these four actions, a
  \<open>Deliver\<close> on an empty queue being a worker that finds nothing to do.  The timer, the
  wildcard channel and start/stop are left out.

  An event is the pair of its type and its payload; \<open>received\<close> logs each call of a
  handler with the event it was called with.
\<close>

type_synonym 'a devent = "string \<times> 'a"

record 'a dispatcher =
  subscribers :: "string \<Rightarrow> string list"
  queue :: "'a devent list"
  received :: "(string \<times> 'a devent) list"

datatype 'a action =
    Register string string
  | Unregister string string
  | Put "'a devent"
  | Deliver

definition new_dispatcher :: "'a dispatcher" where
  "new_dispatcher = \<lparr>subscribers = (\<lambda>t. []), queue = [], received = []\<rparr>"

fun step :: "'a action \<Rightarrow> 'a dispatcher \<Rightarrow> 'a dispatcher" where
  "step (Register t h) d =
     (if h \<in> set (subscribers d t) then d
      else d\<lparr>subscribers := (subscribers d)(t := subscribers d t @ [h])\<rparr>)"
| "step (Unregister t h) d =
     d\<lparr>subscribers := (subscribers d)(t := removeAll h (subscribers d t))\<rparr>"
| "step (Put e) d = d\<lparr>queue := queue d @ [e]\<rparr>"
| "step Deliver d =
     (case queue d of
        [] \<Rightarrow> d
      | e # q \<Rightarrow>
          d\<lparr>queue := q, received := received d @ map (\<lambda>h. (h, e)) (subscribers d (fst e))\<rparr>)"

definition dispatch :: "'a action list \<Rightarrow> 'a dispatcher \<Rightarrow> 'a dispatcher" where
  "dispatch acts d = foldl (\<lambda>d a. step a d) d acts"

text \<open>The events put, in the order of the calls, and those of one type.\<close>

fun puts :: "'a action list \<Rightarrow> 'a devent list" where
  "puts [] = []"
| "puts (Put e # acts) = e # puts acts"
| "puts (a # acts) = puts acts"

definition of_type :: "string \<Rightarrow> 'a devent list \<Rightarrow> 'a devent list" where
  "of_type t es = filter (\<lambda>e. fst e = t) es"

text \<open>The events of type \<open>t\<close> that handler \<open>h\<close> was called with, in the order of the calls.\<close>

definition received_by :: "'a dispatcher \<Rightarrow> string \<Rightarrow> string \<Rightarrow> 'a devent list" where
  "received_by d h t = of_type t (map snd (filter (\<lambda>c. fst c = h) (received d)))"

text \<open>A run in which handler \<open>h\<close> is never unregistered from type \<open>t\<close>.\<close>

definition keeps :: "string \<Rightarrow> string \<Rightarrow> 'a action list \<Rightarrow> bool" where
  "keeps t h acts = (Unregister t h \<notin> set acts)"


section \<open>The order collection of the state reconciliation engine\<close>

text \<open>
  Modelled from the spec: the order collection of the state reconciliation engine (the
  "Oms", \<^verbatim>\<open>OmsEngine\<close> of \<^verbatim>\<open>vnpy/trader/engine.py\<close>, which is not among the sources) and
  what it does with an order event.  An order is keyed by its gateway name and order id
  and carries a total volume, a traded volume and a status.  An order event is an upsert
  by that key; an event whose traded volume is below that of the stored order is logged
  as anomalous and dropped, not applied.  The spec words the check for an order whose
  status is terminal and gives its example for one whose status is not (traded 5 of 10,
  partly traded, an update with traded 3 is dropped): the check is made in every status.
\<close>

datatype order_status = Submitting | NotTraded | PartTraded | AllTraded | Cancelled | Rejected






section \<open>Properties of the export\<close>

lemma row_data_eq: "row_data m r cs = map (text_at m r) cs"
  by (induction cs) (simp_all add: text_at_def)

lemma write_rows_eq:
  "set rs \<subseteq> {..<length (table m)} \<Longrightarrow>
   write_rows m rs written =
     written @ map (\<lambda>r. map (text_at m r) [0..<column_count m])
                   (filter (\<lambda>r. \<not> row_hidden (table m ! r)) rs)"
  by (induction rs arbitrary: written) (simp_all add: isRowHidden_def row_data_eq)

text \<open>
  C9.  When the dialog returned a path, the file written by \<open>save_csv\<close> holds one header
  row with the display labels of the monitor, followed by one row per table row that is
  not hidden, in table order, each with the texts of its columns (empty where a column
  has no item); a hidden row contributes nothing.
\<close>

theorem save_csv_visible_rows:
  assumes "path \<noteq> []"
  shows "save_csv cfg path m fs path =
           Some (display_labels cfg #
                 map (\<lambda>r. map (text_at m r) [0..<column_count m]) (visible_rows m))"
proof -
  have "set [0..<rowCount m] \<subseteq> {..<length (table m)}"
    by (auto simp: rowCount_def)
  then have "write_rows m [0..<rowCount m] [display_labels cfg] =
      [display_labels cfg] @ map (\<lambda>r. map (text_at m r) [0..<column_count m])
                   (filter (\<lambda>r. \<not> row_hidden (table m ! r)) [0..<rowCount m])"
    by (rule write_rows_eq)
  moreover have "map (\<lambda>(h, d). h_display d) (headers cfg) = display_labels cfg"
    by (simp add: display_labels_def comp_def case_prod_unfold)
  ultimately show ?thesis
    using assms by (simp add: save_csv_def visible_rows_def rowCount_def)
qed

theorem save_csv_visible_rows_witness:
  "''out.csv'' \<noteq> [] \<and>
   save_csv csv_cfg ''out.csv'' csv_monitor Map.empty ''out.csv'' = Some [[''Key''], [''b'']]"
  using save_csv_visible_rows [of "''out.csv''" csv_cfg csv_monitor Map.empty]
  by (simp add: display_labels_def visible_rows_def text_at_def item_def csv_cfg_def
      csv_monitor_def BaseCell_init_def upt_rec)

section \<open>Cells, rows and the invariant of the cells dict\<close>

lemma set_content_error: "set_content str content data c = Inl e \<Longrightarrow> e = AttributeError"
  by (auto simp: set_content_def BaseCell_set_content_def EnumCell_set_content_def
      DirectionCell_set_content_def PnlCell_set_content_def TimeCell_set_content_def
      DateCell_set_content_def Let_def split: cell_class.splits if_splits pyval.splits sum.splits)

lemma set_content_class: "set_content str content data c = Inr c' \<Longrightarrow> cell_class c' = cell_class c"
  by (auto simp: set_content_def BaseCell_set_content_def EnumCell_set_content_def
      DirectionCell_set_content_def PnlCell_set_content_def TimeCell_set_content_def
      DateCell_set_content_def Let_def split: cell_class.splits if_splits pyval.splits sum.splits)

lemma set_content_lacks:
  "lacks_set_content (cell_class c) \<Longrightarrow> set_content str content data c = Inl AttributeError"
  by (auto simp: set_content_def lacks_set_content_def BaseCell_set_content_def)

lemma map_update_same: "f y = f (xs ! a) \<Longrightarrow> map f (xs[a := y]) = map f xs"
  by (metis list_update_id map_update)

lemma update_cells_frame:
  "update_cells str data rc m = (out, m') \<Longrightarrow>
     table m' = table m \<and> cells m' = cells m \<and> sorting_enabled m' = sorting_enabled m \<and>
     column_count m' = column_count m \<and> length (heap m') = length (heap m) \<and>
     map cell_class (heap m') = map cell_class (heap m)"
proof (induction rc arbitrary: m)
  case Nil
  then show ?case by simp
next
  case (Cons p rc)
  obtain h a where p: "p = (h, a)" by (cases p)
  show ?case
  proof (cases "data h")
    case None
    with Cons.prems p show ?thesis by simp
  next
    case (Some content)
    show ?thesis
    proof (cases "set_content str content data (heap m ! a)")
      case (Inl e)
      with Cons.prems p Some show ?thesis by simp
    next
      case (Inr c')
      with Cons.prems p Some
      have "update_cells str data rc (m\<lparr>heap := (heap m)[a := c']\<rparr>) = (out, m')" by simp
      from Cons.IH [OF this] set_content_class [OF Inr]
      show ?thesis by (simp add: map_update_same)
    qed
  qed
qed

lemma update_cells_raises:
  "(h, a) \<in> set rc \<Longrightarrow> a < length (heap m) \<Longrightarrow> lacks_set_content (cell_class (heap m ! a)) \<Longrightarrow>
   fst (update_cells str data rc m) = Raised AttributeError"
proof (induction rc arbitrary: m)
  case Nil
  then show ?case by simp
next
  case (Cons p rc)
  obtain h' a' where p: "p = (h', a')" by (cases p)
  show ?case
  proof (cases "data h'")
    case None
    with p show ?thesis by simp
  next
    case (Some content)
    show ?thesis
    proof (cases "set_content str content data (heap m ! a')")
      case (Inl e)
      with Some p set_content_error [OF Inl] show ?thesis by simp
    next
      case (Inr c')
      have ne: "(h, a) \<noteq> (h', a')"
      proof
        assume "(h, a) = (h', a')"
        with Cons.prems(3) have "lacks_set_content (cell_class (heap m ! a'))" by simp
        from set_content_lacks [OF this, of str content data] Inr show False by simp
      qed
      with Cons.prems(1) p have mem: "(h, a) \<in> set rc" by auto
      let ?m = "m\<lparr>heap := (heap m)[a' := c']\<rparr>"
      have "cell_class (heap ?m ! a) = cell_class (heap m ! a)"
        using set_content_class [OF Inr] Cons.prems(2)
        by (cases "a = a'") simp_all
      with Cons.prems have "fst (update_cells str data rc ?m) = Raised AttributeError"
        using mem by (intro Cons.IH) simp_all
      with Some Inr p show ?thesis by simp
    qed
  qed
qed


lemma new_cell_class: "cell_class (new_cell str cls content data) = cls"
  by (cases cls) (simp_all add: BaseCell_init_def)

lemma new_cell_data: "cell_data (new_cell str cls content data) = data"
  by (cases cls) (simp_all add: BaseCell_init_def)

lemma setItem_length: "length (setItem r c a t) = length t"
  by (simp add: setItem_def)

lemma setItem_hidden: "map row_hidden (setItem r c a t) = map row_hidden t"
  by (simp add: setItem_def map_update_same)

lemma setItem_tl: "tl (setItem 0 c a t) = tl t"
  by (cases t) (simp_all add: setItem_def)

lemma insert_cells_frame:
  "insert_cells str data hs col rc m = (out, rc', m') \<Longrightarrow>
     cells m' = cells m \<and> sorting_enabled m' = sorting_enabled m \<and>
     column_count m' = column_count m \<and> (\<exists>ys. heap m' = heap m @ ys) \<and>
     length (table m') = length (table m) \<and> tl (table m') = tl (table m) \<and>
     map row_hidden (table m') = map row_hidden (table m)"
proof (induction hs arbitrary: col rc m)
  case Nil
  then show ?case by simp
next
  case (Cons p hs)
  obtain h s where p: "p = (h, s)" by (cases p)
  show ?case
  proof (cases "data h")
    case None
    with Cons.prems p show ?thesis by simp
  next
    case (Some content)
    let ?m = "m\<lparr>heap := heap m @ [new_cell str (h_cell s) content data],
                 table := setItem 0 col (length (heap m)) (table m)\<rparr>"
    let ?rc = "if h_update s then AList.update h (length (heap m)) rc else rc"
    from Cons.prems p Some
    have "insert_cells str data hs (Suc col) ?rc ?m = (out, rc', m')"
      by (simp add: Let_def)
    from Cons.IH [OF this] show ?thesis
      by (auto simp: setItem_length setItem_hidden setItem_tl)
  qed
qed

lemma insert_cells_done:
  "\<forall>p \<in> set hs. data (fst p) \<noteq> None \<Longrightarrow> fst (insert_cells str data hs col rc m) = Done"
  by (induction hs arbitrary: col rc m) (auto simp: Let_def)

lemma alist_update_fresh: "k \<notin> fst ` set al \<Longrightarrow> AList.update k v al = al @ [(k, v)]"
  by (induction al) auto

lemma entry_new_ok: "entry_new str data hp e hs \<Longrightarrow> entry_ok hp e hs"
  by (auto simp: entry_new_def entry_ok_def new_cell_class)

lemma entry_new_append: "entry_new str data hp e hs \<Longrightarrow> entry_new str data (hp @ ys) e hs"
  by (auto simp: entry_new_def nth_append)

lemma list_all2_entry_new_fst:
  "list_all2 (entry_new str data hp) rc xs \<Longrightarrow> map fst rc = map fst xs"
  by (induction rule: list_all2_induct) (auto simp: entry_new_def)

lemma updatable_append: "updatable (ps @ qs) = updatable ps @ updatable qs"
  by (simp add: updatable_def)

lemma insert_cells_entries:
  "distinct (map fst (ps @ hs)) \<Longrightarrow> list_all2 (entry_new str data (heap m)) rc (updatable ps) \<Longrightarrow>
   insert_cells str data hs col rc m = (Done, rc', m') \<Longrightarrow>
   list_all2 (entry_new str data (heap m')) rc' (updatable (ps @ hs))"
proof (induction hs arbitrary: ps col rc m)
  case Nil
  then show ?case by simp
next
  case (Cons p hs)
  obtain h s where p: "p = (h, s)" by (cases p)
  show ?case
  proof (cases "data h")
    case None
    with Cons.prems p show ?thesis by simp
  next
    case (Some content)
    let ?c = "new_cell str (h_cell s) content data"
    let ?a = "length (heap m)"
    let ?m = "m\<lparr>heap := heap m @ [?c], table := setItem 0 col ?a (table m)\<rparr>"
    let ?rc = "if h_update s then AList.update h ?a rc else rc"
    from Cons.prems p Some
    have run: "insert_cells str data hs (Suc col) ?rc ?m = (Done, rc', m')"
      by (simp add: Let_def)
    have d: "distinct (map fst ((ps @ [p]) @ hs))"
      using Cons.prems(1) by simp
    have old: "list_all2 (entry_new str data (heap ?m)) rc (updatable ps)"
      using Cons.prems(2) by (auto intro: list_all2_mono entry_new_append)
    have fresh: "h \<notin> fst ` set rc"
    proof -
      have "map fst rc = map fst (updatable ps)"
        using Cons.prems(2) by (rule list_all2_entry_new_fst)
      then have "fst ` set rc = fst ` set (updatable ps)"
        by (metis set_map)
      also have "\<dots> \<subseteq> fst ` set ps"
        by (auto simp: updatable_def)
      finally show ?thesis using Cons.prems(1) p by auto
    qed
    have new: "entry_new str data (heap ?m) (h, ?a) (h, s)"
      using Some by (simp add: entry_new_def)
    have "list_all2 (entry_new str data (heap ?m)) ?rc (updatable (ps @ [p]))"
    proof (cases "h_update s")
      case True
      then have "?rc = rc @ [(h, ?a)]" using fresh by (simp add: alist_update_fresh)
      moreover have "updatable (ps @ [p]) = updatable ps @ [(h, s)]"
        using True p by (simp add: updatable_def)
      ultimately show ?thesis using old new by (simp add: list_all2_appendI)
    next
      case False
      then have "updatable (ps @ [p]) = updatable ps" using p by (simp add: updatable_def)
      with False old show ?thesis by simp
    qed
    from Cons.IH [OF d this run] show ?thesis by simp
  qed
qed


lemma entry_ok_heap:
  "entry_ok hp e hs \<Longrightarrow> length hp \<le> length hp' \<Longrightarrow>
   \<forall>a<length hp. cell_class (hp' ! a) = cell_class (hp ! a) \<Longrightarrow> entry_ok hp' e hs"
  by (auto simp: entry_ok_def)

lemma rc_ok_heap:
  "rc_ok cfg hp rc \<Longrightarrow> length hp \<le> length hp' \<Longrightarrow>
   \<forall>a<length hp. cell_class (hp' ! a) = cell_class (hp ! a) \<Longrightarrow> rc_ok cfg hp' rc"
  unfolding rc_ok_def by (erule list_all2_mono) (rule entry_ok_heap)

lemma rc_ok_append: "rc_ok cfg hp rc \<Longrightarrow> rc_ok cfg (hp @ ys) rc"
  by (erule rc_ok_heap) (simp_all add: nth_append)

lemma rc_ok_classes:
  "rc_ok cfg hp rc \<Longrightarrow> map cell_class hp' = map cell_class hp \<Longrightarrow> rc_ok cfg hp' rc"
proof (erule rc_ok_heap)
  assume eq: "map cell_class hp' = map cell_class hp"
  then have len: "length hp' = length hp" by (rule map_eq_imp_length_eq)
  then show "length hp \<le> length hp'" by simp
  show "\<forall>a<length hp. cell_class (hp' ! a) = cell_class (hp ! a)"
  proof (intro allI impI)
    fix a assume "a < length hp"
    then have "map cell_class hp' ! a = map cell_class hp ! a" using eq by simp
    then show "cell_class (hp' ! a) = cell_class (hp ! a)"
      using \<open>a < length hp\<close> len by simp
  qed
qed

lemma insert_new_row_result:
  assumes "distinct (map fst (headers cfg))" and "insert_new_row str cfg data m = (out, m')"
  shows "(\<exists>ys. heap m' = heap m @ ys) \<and> sorting_enabled m' = sorting_enabled m \<and>
         column_count m' = column_count m \<and> tl (table m') = table m \<and>
         map row_hidden (table m') = False # map row_hidden (table m) \<and>
         (if out = Done \<and> data_key cfg \<noteq> []
          then \<exists>key rc. data (data_key cfg) = Some key \<and> cells m' = (cells m)(key \<mapsto> rc) \<and>
                 list_all2 (entry_new str data (heap m')) rc (updatable (headers cfg))
          else cells m' = cells m)"
proof -
  obtain o1 rc1 m1 where ic: "insert_cells str data (headers cfg) 0 [] (insertRow0 m) = (o1, rc1, m1)"
    by (cases "insert_cells str data (headers cfg) 0 [] (insertRow0 m)") auto
  from insert_cells_frame [OF ic]
  have fr: "cells m1 = cells m" "sorting_enabled m1 = sorting_enabled m"
    "column_count m1 = column_count m" "\<exists>ys. heap m1 = heap m @ ys"
    "tl (table m1) = table m" "map row_hidden (table m1) = False # map row_hidden (table m)"
    by (simp_all add: insertRow0_def)
  show ?thesis
  proof (cases o1)
    case (Raised e)
    with ic assms(2) have "out = Raised e" "m' = m1" by (simp_all add: insert_new_row_def)
    with fr show ?thesis by simp
  next
    case Done
    have en: "list_all2 (entry_new str data (heap m1)) rc1 (updatable (headers cfg))"
      using insert_cells_entries [of "[]" "headers cfg" str data "insertRow0 m" "[]" 0 rc1 m1]
        assms(1) ic Done by (simp add: updatable_def)
    show ?thesis
    proof (cases "data_key cfg = []")
      case True
      with ic Done assms(2) have "m' = m1" by (simp add: insert_new_row_def)
      with fr True show ?thesis by simp
    next
      case False
      show ?thesis
      proof (cases "data (data_key cfg)")
        case None
        with ic Done False assms(2) have "out = Raised AttributeError" "m' = m1"
          by (simp_all add: insert_new_row_def)
        with fr show ?thesis by simp
      next
        case (Some key)
        with ic Done False assms(2)
        have "out = Done" "m' = m1\<lparr>cells := (cells m1)(key \<mapsto> rc1)\<rparr>"
          by (simp_all add: insert_new_row_def)
        with fr en False Some show ?thesis by auto
      qed
    qed
  qed
qed

lemma insert_new_row_done:
  "\<forall>p \<in> set (headers cfg). data (fst p) \<noteq> None \<Longrightarrow> data (data_key cfg) \<noteq> None \<Longrightarrow>
   fst (insert_new_row str cfg data m) = Done"
  using insert_cells_done [of "headers cfg" data str 0 "[]" "insertRow0 m"]
  by (auto simp: insert_new_row_def split: prod.splits outcome.splits)

lemma cells_ok_sorting [simp]: "cells_ok cfg (m\<lparr>sorting_enabled := b\<rparr>) = cells_ok cfg m"
  by (simp add: cells_ok_def)

lemma cells_ok_empty: "cells m = Map.empty \<Longrightarrow> cells_ok cfg m"
  by (simp add: cells_ok_def)

lemma cells_ok_insert:
  assumes "distinct (map fst (headers cfg))" and "cells_ok cfg m"
  shows "cells_ok cfg (snd (insert_new_row str cfg data m))"
proof -
  obtain out m' where r: "insert_new_row str cfg data m = (out, m')"
    by (cases "insert_new_row str cfg data m") auto
  from insert_new_row_result [OF assms(1) r]
  obtain ys where hp: "heap m' = heap m @ ys"
    and cs: "if out = Done \<and> data_key cfg \<noteq> []
          then \<exists>key rc. data (data_key cfg) = Some key \<and> cells m' = (cells m)(key \<mapsto> rc) \<and>
                 list_all2 (entry_new str data (heap m')) rc (updatable (headers cfg))
          else cells m' = cells m"
    by blast
  have old: "rc_ok cfg (heap m') rc" if "cells m k = Some rc" for k rc
    using that assms(2) hp by (auto simp: cells_ok_def intro: rc_ok_append)
  have "cells_ok cfg m'"
  proof (cases "out = Done \<and> data_key cfg \<noteq> []")
    case True
    with cs obtain key rc where c: "cells m' = (cells m)(key \<mapsto> rc)"
      and en: "list_all2 (entry_new str data (heap m')) rc (updatable (headers cfg))"
      by auto
    from en have "rc_ok cfg (heap m') rc"
      unfolding rc_ok_def by (rule list_all2_mono) (rule entry_new_ok)
    with c old show ?thesis by (auto simp: cells_ok_def)
  next
    case False
    with cs have "cells m' = cells m" by auto
    with old show ?thesis by (auto simp: cells_ok_def)
  qed
  with r show ?thesis by simp
qed

lemma cells_ok_update:
  assumes "cells_ok cfg m"
  shows "cells_ok cfg (snd (update_old_row str cfg data m))"
proof -
  obtain out m' where r: "update_old_row str cfg data m = (out, m')"
    by (cases "update_old_row str cfg data m") auto
  have "cells m' = cells m \<and> map cell_class (heap m') = map cell_class (heap m)"
  proof (cases "data (data_key cfg)")
    case None
    with r show ?thesis by (simp add: update_old_row_def)
  next
    case (Some key)
    show ?thesis
    proof (cases "cells m key")
      case None
      with r Some show ?thesis by (simp add: update_old_row_def)
    next
      case (Some rc)
      with r \<open>data (data_key cfg) = Some key\<close>
      have "update_cells str data rc m = (out, m')" by (simp add: update_old_row_def)
      from update_cells_frame [OF this] show ?thesis by simp
    qed
  qed
  with assms have "cells_ok cfg m'"
    by (auto simp: cells_ok_def intro: rc_ok_classes)
  with r show ?thesis by simp
qed

lemma cells_ok_process_event:
  assumes "distinct (map fst (headers cfg))" and "cells_ok cfg m"
  shows "cells_ok cfg (snd (process_event str cfg ev m))"
proof -
  let ?m1 = "if sorting cfg then m\<lparr>sorting_enabled := False\<rparr> else m"
  have ok1: "cells_ok cfg ?m1" using assms(2) by simp
  note ins = cells_ok_insert [OF assms(1) ok1, of str "ev_data ev"]
  note upd = cells_ok_update [OF ok1, of str "ev_data ev"]
  show ?thesis
    using ins upd ok1
    by (auto simp: process_event_def Let_def split: prod.splits option.splits outcome.splits if_splits)
qed

lemma cells_ok_run:
  "distinct (map fst (headers cfg)) \<Longrightarrow> cells_ok cfg m \<Longrightarrow> cells_ok cfg (run str cfg evs m)"
  by (induction evs arbitrary: m) (simp_all add: cells_ok_process_event)

subsection \<open>One event on a monitor that keeps the invariant\<close>

lemma update_cells_first_lacks:
  "lacks_set_content (cell_class (heap m ! a)) \<Longrightarrow>
   update_cells str data ((h, a) # rest) m = (Raised AttributeError, m)"
  by (cases "data h") (simp_all add: set_content_lacks)

lemma list_all2_entry_ok_mem:
  "list_all2 (entry_ok hp) rc xs \<Longrightarrow> x \<in> set xs \<Longrightarrow> \<exists>e \<in> set rc. entry_ok hp e x"
  by (induction rule: list_all2_induct) auto

lemma list_all2_entry_ok_bound:
  "list_all2 (entry_ok hp) rc xs \<Longrightarrow> e \<in> set rc \<Longrightarrow> snd e < length hp"
  by (induction rule: list_all2_induct) (auto simp: entry_ok_def)

lemma update_old_row_raises:
  assumes ok: "cells_ok cfg m" and hs: "(h, s) \<in> set (headers cfg)" "h_update s"
    and lacks: "lacks_set_content (h_cell s)"
    and key: "data (data_key cfg) = Some key" "cells m key \<noteq> None"
  shows "fst (update_old_row str cfg data m) = Raised AttributeError"
proof -
  from key(2) obtain rc where rc: "cells m key = Some rc" by auto
  with ok have "list_all2 (entry_ok (heap m)) rc (updatable (headers cfg))"
    by (auto simp: cells_ok_def rc_ok_def)
  moreover have "(h, s) \<in> set (updatable (headers cfg))"
    using hs by (simp add: updatable_def)
  ultimately obtain e where e: "e \<in> set rc" "entry_ok (heap m) e (h, s)"
    by (blast dest: list_all2_entry_ok_mem)
  have "(fst e, snd e) \<in> set rc" using e(1) by simp
  moreover have "snd e < length (heap m)" using e(2) by (simp add: entry_ok_def)
  moreover have "lacks_set_content (cell_class (heap m ! snd e))"
    using e(2) lacks by (simp add: entry_ok_def)
  ultimately have "fst (update_cells str data rc m) = Raised AttributeError"
    by (rule update_cells_raises)
  with key(1) rc show ?thesis by (simp add: update_old_row_def)
qed

lemma process_event_seen_raises:
  assumes ok: "cells_ok cfg m" and hs: "(h, s) \<in> set (headers cfg)" "h_update s"
    and lacks: "lacks_set_content (h_cell s)" and dk: "data_key cfg \<noteq> []"
    and key: "ev_data ev (data_key cfg) = Some key" "cells m key \<noteq> None"
  shows "fst (process_event str cfg ev m) = Raised AttributeError"
proof -
  let ?m1 = "if sorting cfg then m\<lparr>sorting_enabled := False\<rparr> else m"
  have "cells_ok cfg ?m1" "cells ?m1 key \<noteq> None" using ok key(2) by simp_all
  then have "fst (update_old_row str cfg (ev_data ev) ?m1) = Raised AttributeError"
    using hs lacks key(1)
    by (intro update_old_row_raises [where h = h and s = s and key = key]) simp_all
  then show ?thesis using dk key
    by (cases "sorting cfg")
       (auto simp: process_event_def Let_def split: prod.splits outcome.splits)
qed

lemma process_event_first_lacks:
  assumes ok: "cells_ok cfg m" and up: "updatable (headers cfg) = (h, s) # us"
    and lacks: "lacks_set_content (h_cell s)" and dk: "data_key cfg \<noteq> []"
    and key: "ev_data ev (data_key cfg) = Some key" "cells m key \<noteq> None"
  shows "process_event str cfg ev m =
           (Raised AttributeError, if sorting cfg then m\<lparr>sorting_enabled := False\<rparr> else m)"
proof -
  let ?m1 = "if sorting cfg then m\<lparr>sorting_enabled := False\<rparr> else m"
  from key(2) obtain rc where rc: "cells m key = Some rc" by auto
  with ok up have "list_all2 (entry_ok (heap m)) rc ((h, s) # us)"
    by (auto simp: cells_ok_def rc_ok_def)
  then obtain e rest where rc': "rc = e # rest" and e: "entry_ok (heap m) e (h, s)"
    by (auto simp: list_all2_Cons2)
  obtain h' a where ea: "e = (h', a)" by (cases e)
  have "lacks_set_content (cell_class (heap ?m1 ! a))"
    using e ea lacks by (simp add: entry_ok_def)
  then have "update_cells str (ev_data ev) ((h', a) # rest) ?m1 = (Raised AttributeError, ?m1)"
    by (rule update_cells_first_lacks)
  moreover have "cells ?m1 key = Some ((h', a) # rest)" using rc rc' ea by simp
  ultimately have "update_old_row str cfg (ev_data ev) ?m1 = (Raised AttributeError, ?m1)"
    using key(1) by (simp add: update_old_row_def)
  then show ?thesis using dk key rc
    by (cases "sorting cfg") (simp_all add: process_event_def Let_def)
qed

lemma process_event_fresh:
  assumes d: "distinct (map fst (headers cfg))" and dk: "data_key cfg \<noteq> []"
    and attrs: "\<forall>p \<in> set (headers cfg). ev_data ev (fst p) \<noteq> None"
    and key: "ev_data ev (data_key cfg) = Some key" "cells m key = None"
  shows "\<exists>m' rc ys. process_event str cfg ev m = (Done, m') \<and>
           cells m' = (cells m)(key \<mapsto> rc) \<and>
           list_all2 (entry_new str (ev_data ev) (heap m')) rc (updatable (headers cfg)) \<and>
           heap m' = heap m @ ys \<and> tl (table m') = table m \<and>
           map row_hidden (table m') = False # map row_hidden (table m)"
proof -
  let ?m1 = "if sorting cfg then m\<lparr>sorting_enabled := False\<rparr> else m"
  obtain out m2 where r: "insert_new_row str cfg (ev_data ev) ?m1 = (out, m2)"
    by (cases "insert_new_row str cfg (ev_data ev) ?m1") auto
  have "fst (insert_new_row str cfg (ev_data ev) ?m1) = Done"
    using attrs key(1) by (intro insert_new_row_done) simp_all
  with r have out: "out = Done" by simp
  from insert_new_row_result [OF d r] out dk key(1)
  obtain rc ys where f: "cells m2 = (cells ?m1)(key \<mapsto> rc)"
    "list_all2 (entry_new str (ev_data ev) (heap m2)) rc (updatable (headers cfg))"
    "heap m2 = heap ?m1 @ ys" "tl (table m2) = table ?m1"
    "map row_hidden (table m2) = False # map row_hidden (table ?m1)"
    by auto
  let ?m' = "if sorting cfg then m2\<lparr>sorting_enabled := True\<rparr> else m2"
  have pe: "process_event str cfg ev m = (Done, ?m')"
    using r out dk key by (cases "sorting cfg") (simp_all add: process_event_def Let_def)
  have c: "cells ?m' = (cells m)(key \<mapsto> rc)" "heap ?m' = heap m @ ys"
    "tl (table ?m') = table m" "map row_hidden (table ?m') = False # map row_hidden (table m)"
    "list_all2 (entry_new str (ev_data ev) (heap ?m')) rc (updatable (headers cfg))"
    using f by (cases "sorting cfg"; simp)+
  from pe c show ?thesis
    by - (rule exI [of _ "?m'"], rule exI [of _ rc], rule exI [of _ ys], simp)
qed

section \<open>The constructors raise\<close>

lemma sorting_change_undefined: "monitor_getattr ''sorting_change'' = Raised AttributeError"
  by (simp add: monitor_getattr_def monitor_attributes_def)

lemma get_icon_path_unbound:
  "''get_icon_path'' \<notin> set module_globals" "''get_icon_path'' \<notin> set widget_module_names"
  "''get_icon_path'' \<notin> set python_builtins"
  by (simp_all add: module_globals_def widget_module_names_def python_builtins_def)

lemma widget_names_bound:
  "''QtWidgets'' \<in> set widget_module_names" "''QtGui'' \<in> set widget_module_names"
  "''_'' \<in> set widget_module_names"
  by (simp_all add: widget_module_names_def)

lemma init_menu_raises: "init_menu m = (Raised (NameError ''get_icon_path''), m)"
  using get_icon_path_unbound widget_names_bound
  by (simp add: init_menu_def init_menu_loads_def)

lemma BaseMonitor_init_raises:
  "BaseMonitor_init cfg =
     Inl (if sorting cfg then AttributeError else NameError ''get_icon_path'')"
  by (simp add: BaseMonitor_init_def init_ui_def init_table_def Let_def
      sorting_change_undefined init_menu_raises)

lemma OrderMonitor_init_raises: "BaseMonitor_init (OrderMonitor tr) = Inl AttributeError"
  by (simp add: BaseMonitor_init_raises OrderMonitor_def)

lemma ConnectDialog_init_raises:
  "ConnectDialog_init str default_setting gateway_name fs = Inl (NameError ''get_icon_path'')"
  using get_icon_path_unbound widget_names_bound
  by (simp add: ConnectDialog_init_def Let_def)

section \<open>The update path of the monitors\<close>

lemma tick_headers_distinct: "distinct (map fst (headers (TickMonitor tr)))"
  by (simp add: TickMonitor_def)

lemma order_headers_distinct: "distinct (map fst (headers (OrderMonitor tr)))"
  by (simp add: OrderMonitor_def)

lemma tick_updatable:
  "\<exists>s us. updatable (headers (TickMonitor tr)) = (''name'', s) # us \<and> h_cell s = BaseCell"
  by (simp add: TickMonitor_def updatable_def)

lemma order_updatable:
  "\<exists>s1 s2 s3. updatable (headers (OrderMonitor tr)) = [(''traded'', s1), (''status'', s2), (''datetime'', s3)]
     \<and> h_cell s1 = BaseCell"
  by (simp add: OrderMonitor_def updatable_def)

lemma order_first_lacks:
  "\<exists>s us. updatable (headers (OrderMonitor tr)) = (''traded'', s) # us \<and> lacks_set_content (h_cell s)"
  using order_updatable [of tr] by (auto simp: lacks_set_content_def)

lemma order_key: "data_key (OrderMonitor tr) = ''vt_orderid''" "sorting (OrderMonitor tr)"
  by (simp_all add: OrderMonitor_def)

lemma order_attrs:
  "\<forall>p \<in> set (headers (OrderMonitor tr)). ev_data (order_event oid t st) (fst p) \<noteq> None"
  by (simp add: OrderMonitor_def order_event_def example_order_def)

lemma tick_seen_raises:
  assumes "cells_ok (TickMonitor tr) m" and "ev_data ev ''vt_symbol'' = Some key"
    and "cells m key \<noteq> None"
  shows "process_event str (TickMonitor tr) ev m =
           (Raised AttributeError, m\<lparr>sorting_enabled := False\<rparr>)"
proof -
  obtain s us where up: "updatable (headers (TickMonitor tr)) = (''name'', s) # us"
    and cl: "h_cell s = BaseCell"
    using tick_updatable by blast
  have lk: "lacks_set_content (h_cell s)" using cl by (simp add: lacks_set_content_def)
  have dk: "data_key (TickMonitor tr) \<noteq> []" "data_key (TickMonitor tr) = ''vt_symbol''"
    "sorting (TickMonitor tr)"
    by (simp_all add: TickMonitor_def)
  from process_event_first_lacks [OF assms(1) up lk dk(1), of ev key str] assms dk
  show ?thesis by simp
qed

lemma order_seen_raises:
  assumes "cells_ok (OrderMonitor tr) m" and "ev_data ev ''vt_orderid'' = Some key"
    and "cells m key \<noteq> None"
  shows "process_event str (OrderMonitor tr) ev m =
           (Raised AttributeError, m\<lparr>sorting_enabled := False\<rparr>)"
proof -
  obtain s us where up: "updatable (headers (OrderMonitor tr)) = (''traded'', s) # us"
    and lk: "lacks_set_content (h_cell s)"
    using order_first_lacks by blast
  have dk: "data_key (OrderMonitor tr) \<noteq> []" by (simp add: order_key)
  from process_event_first_lacks [OF assms(1) up lk dk, of ev key str] assms
  show ?thesis by (simp add: order_key)
qed

subsection \<open>The example of a monitor that shows one row\<close>

lemma updatable_at_ok:
  "list_all2 (entry_ok (pre @ cells_of str data hs)) (updatable_at hs (length pre)) (updatable hs)"
proof (induction hs arbitrary: pre)
  case Nil
  show ?case by (simp add: updatable_def)
next
  case (Cons x hs)
  obtain h s where x: "x = (h, s)" by (cases x)
  let ?c = "new_cell str (h_cell s) (case data h of Some content \<Rightarrow> content | None \<Rightarrow> PNone) data"
  have eq: "pre @ cells_of str data (x # hs) = (pre @ [?c]) @ cells_of str data hs"
    by (simp add: cells_of_def x)
  from Cons [of "pre @ [?c]"]
  have rest: "list_all2 (entry_ok (pre @ cells_of str data (x # hs)))
      (updatable_at hs (Suc (length pre))) (updatable hs)"
    by (simp add: eq)
  have hd: "entry_ok (pre @ cells_of str data (x # hs)) (h, length pre) (h, s)"
    by (simp add: entry_ok_def cells_of_def x new_cell_class)
  from rest hd show ?case by (simp add: x updatable_def)
qed

lemma cells_ok_one_row: "cells_ok cfg (one_row str cfg key data)"
  using updatable_at_ok [of "[]" str data "headers cfg"]
  by (auto simp: cells_ok_def rc_ok_def one_row_def split: if_splits)

lemma insert_new_row_one_row:
  "insert_new_row str kv_cfg (ev_data (kv_event n))
     \<lparr>table = [], heap = [], cells = Map.empty, sorting_enabled = False, column_count = 2\<rparr> =
   (Done, one_row str kv_cfg (PStr ''a'') (ev_data (kv_event n)))"
  by (simp add: insert_new_row_def insertRow0_def setItem_def one_row_def cells_of_def
      kv_cfg_def kv_event_def Let_def numeral_2_eq_2 upt_rec)

lemma one_row_cells:
  "cells (one_row str cfg key data) key \<noteq> None"
  "k \<noteq> key \<Longrightarrow> cells (one_row str cfg key data) k = None"
  by (simp_all add: one_row_def)

text \<open>
  C8.  On a monitor object with a data key whose cells dict is as \<open>insert_new_row\<close>
  builds it, an event whose key is already listed raises \<^verbatim>\<open>AttributeError\<close> as soon as
  some updatable column uses \<open>BaseCell\<close>, \<open>BidCell\<close> or \<open>AskCell\<close>, the classes without
  \<^verbatim>\<open>set_content\<close>.  In the tick monitor the first updatable column (\<^verbatim>\<open>name\<close>) is such a
  column: a tick for a listed \<^verbatim>\<open>vt_symbol\<close> raises and leaves table, cells and store as
  they were (only sorting stays switched off).
\<close>

theorem update_of_seen_key_raises:
  "(cells_ok cfg m \<and> data_key cfg \<noteq> [] \<and>
    (h, s) \<in> set (headers cfg) \<and> h_update s \<and>
    (h_cell s = BaseCell \<or> h_cell s = BidCell \<or> h_cell s = AskCell) \<and>
    ev_data ev (data_key cfg) = Some key \<and> cells m key \<noteq> None
    \<longrightarrow> fst (process_event str cfg ev m) = Raised AttributeError \<and>
        fst (update_old_row str cfg (ev_data ev) m) = Raised AttributeError)
   \<and>
   (cells_ok (TickMonitor tr) tm \<and> ev_data tev ''vt_symbol'' = Some vt \<and> cells tm vt \<noteq> None
    \<longrightarrow> process_event str (TickMonitor tr) tev tm =
          (Raised AttributeError, tm\<lparr>sorting_enabled := False\<rparr>))"
proof (intro conjI impI)
  assume a: "cells_ok cfg m \<and> data_key cfg \<noteq> [] \<and>
    (h, s) \<in> set (headers cfg) \<and> h_update s \<and>
    (h_cell s = BaseCell \<or> h_cell s = BidCell \<or> h_cell s = AskCell) \<and>
    ev_data ev (data_key cfg) = Some key \<and> cells m key \<noteq> None"
  then have ok: "cells_ok cfg m" by simp
  have lk: "lacks_set_content (h_cell s)" using a by (auto simp: lacks_set_content_def)
  from a show "fst (process_event str cfg ev m) = Raised AttributeError"
    by (intro process_event_seen_raises [OF ok _ _ lk, where h = h and key = key]) simp_all
  from a show "fst (update_old_row str cfg (ev_data ev) m) = Raised AttributeError"
    by (intro update_old_row_raises [OF ok _ _ lk, where h = h and key = key]) simp_all
next
  assume "cells_ok (TickMonitor tr) tm \<and> ev_data tev ''vt_symbol'' = Some vt \<and> cells tm vt \<noteq> None"
  then show "process_event str (TickMonitor tr) tev tm =
        (Raised AttributeError, tm\<lparr>sorting_enabled := False\<rparr>)"
    by (intro tick_seen_raises) auto
qed

theorem update_of_seen_key_raises_witness:
  "cells_ok kv_cfg (one_row (\<lambda>v. []) kv_cfg (PStr ''a'') (ev_data (kv_event 1))) \<and>
   data_key kv_cfg \<noteq> [] \<and>
   (''v'', \<lparr>h_display = ''Value'', h_cell = BidCell, h_update = True\<rparr>) \<in> set (headers kv_cfg) \<and>
   ev_data (kv_event 2) (data_key kv_cfg) = Some (PStr ''a'') \<and>
   cells (one_row (\<lambda>v. []) kv_cfg (PStr ''a'') (ev_data (kv_event 1))) (PStr ''a'') \<noteq> None \<and>
   fst (process_event (\<lambda>v. []) kv_cfg (kv_event 2)
          (one_row (\<lambda>v. []) kv_cfg (PStr ''a'') (ev_data (kv_event 1)))) = Raised AttributeError \<and>
   cells_ok (TickMonitor (\<lambda>s. s))
     (one_row (\<lambda>v. []) (TickMonitor (\<lambda>s. s)) (PStr ''AAPL.NASDAQ'') (example_tick 100)) \<and>
   ev_data (tick_event 101) ''vt_symbol'' = Some (PStr ''AAPL.NASDAQ'') \<and>
   cells (one_row (\<lambda>v. []) (TickMonitor (\<lambda>s. s)) (PStr ''AAPL.NASDAQ'') (example_tick 100))
     (PStr ''AAPL.NASDAQ'') \<noteq> None \<and>
   process_event (\<lambda>v. []) (TickMonitor (\<lambda>s. s)) (tick_event 101)
       (one_row (\<lambda>v. []) (TickMonitor (\<lambda>s. s)) (PStr ''AAPL.NASDAQ'') (example_tick 100)) =
     (Raised AttributeError,
      (one_row (\<lambda>v. []) (TickMonitor (\<lambda>s. s)) (PStr ''AAPL.NASDAQ'') (example_tick 100))
        \<lparr>sorting_enabled := False\<rparr>)"
proof -
  have k1: "data_key kv_cfg \<noteq> []"
    "(''v'', \<lparr>h_display = ''Value'', h_cell = BidCell, h_update = True\<rparr>) \<in> set (headers kv_cfg)"
    "ev_data (kv_event 2) (data_key kv_cfg) = Some (PStr ''a'')"
    by (simp_all add: kv_cfg_def kv_event_def)
  have t1: "ev_data (tick_event 101) ''vt_symbol'' = Some (PStr ''AAPL.NASDAQ'')"
    by (simp add: tick_event_def example_tick_def)
  show ?thesis
    using update_of_seen_key_raises [of kv_cfg
        "one_row (\<lambda>v. []) kv_cfg (PStr ''a'') (ev_data (kv_event 1))" "''v''"
        "\<lparr>h_display = ''Value'', h_cell = BidCell, h_update = True\<rparr>" "kv_event 2" "PStr ''a''"
        "\<lambda>v. []" "\<lambda>s. s"
        "one_row (\<lambda>v. []) (TickMonitor (\<lambda>s. s)) (PStr ''AAPL.NASDAQ'') (example_tick 100)"
        "tick_event 101" "PStr ''AAPL.NASDAQ''"]
      k1 t1 cells_ok_one_row one_row_cells(1)
    by simp
qed

section \<open>What the order monitors show\<close>

text \<open>
  C2, at the failing input.  Constructing the order monitor raises \<^verbatim>\<open>AttributeError\<close>
  (\<^verbatim>\<open>self.sorting_change\<close> in \<open>init_table\<close>), so there is no monitor that would receive
  an order event.  And on an order monitor object that lists an order, as
  \<open>insert_new_row\<close> leaves it, an event for the same order raises \<^verbatim>\<open>AttributeError\<close>
  and changes neither the table nor the cells nor the store: the row is not updated.
\<close>

theorem order_update_not_applied:
  "BaseMonitor_init (OrderMonitor tr) = Inl AttributeError \<and>
   (cells_ok (OrderMonitor tr) m \<and> ev_data ev ''vt_orderid'' = Some key \<and> cells m key \<noteq> None
    \<longrightarrow> process_event str (OrderMonitor tr) ev m =
          (Raised AttributeError, m\<lparr>sorting_enabled := False\<rparr>))"
proof (intro conjI impI)
  show "BaseMonitor_init (OrderMonitor tr) = Inl AttributeError"
    by (rule OrderMonitor_init_raises)
next
  assume "cells_ok (OrderMonitor tr) m \<and> ev_data ev ''vt_orderid'' = Some key \<and> cells m key \<noteq> None"
  then show "process_event str (OrderMonitor tr) ev m =
      (Raised AttributeError, m\<lparr>sorting_enabled := False\<rparr>)"
    by (intro order_seen_raises) auto
qed

theorem order_update_not_applied_witness:
  "BaseMonitor_init (OrderMonitor (\<lambda>s. s)) = Inl AttributeError \<and>
   cells_ok (OrderMonitor (\<lambda>s. s))
     (one_row (\<lambda>v. []) (OrderMonitor (\<lambda>s. s)) (PStr ''SIM.1'') (example_order ''1'' 0 ''NotTraded'')) \<and>
   ev_data (order_event ''1'' 5 ''PartTraded'') ''vt_orderid'' = Some (PStr ''SIM.1'') \<and>
   cells (one_row (\<lambda>v. []) (OrderMonitor (\<lambda>s. s)) (PStr ''SIM.1'') (example_order ''1'' 0 ''NotTraded''))
     (PStr ''SIM.1'') \<noteq> None \<and>
   process_event (\<lambda>v. []) (OrderMonitor (\<lambda>s. s)) (order_event ''1'' 5 ''PartTraded'')
       (one_row (\<lambda>v. []) (OrderMonitor (\<lambda>s. s)) (PStr ''SIM.1'') (example_order ''1'' 0 ''NotTraded'')) =
     (Raised AttributeError,
      (one_row (\<lambda>v. []) (OrderMonitor (\<lambda>s. s)) (PStr ''SIM.1'') (example_order ''1'' 0 ''NotTraded''))
        \<lparr>sorting_enabled := False\<rparr>)"
proof -
  have e: "ev_data (order_event ''1'' 5 ''PartTraded'') ''vt_orderid'' = Some (PStr ''SIM.1'')"
    by (simp add: order_event_def example_order_def)
  show ?thesis
    using order_update_not_applied [of "\<lambda>s. s"
        "one_row (\<lambda>v. []) (OrderMonitor (\<lambda>s. s)) (PStr ''SIM.1'') (example_order ''1'' 0 ''NotTraded'')"
        "order_event ''1'' 5 ''PartTraded''" "PStr ''SIM.1''" "\<lambda>v. []"]
      e cells_ok_one_row one_row_cells(1)
    by simp
qed

text \<open>
  C3, at the failing input.  Constructing the monitor of active orders raises
  \<^verbatim>\<open>AttributeError\<close> like the order monitor, whose constructor it inherits.  And on a
  monitor object that does not list the order, the first event of an order that arrives
  with status Rejected inserts the row, the lookup of the \<^verbatim>\<open>volume\<close> cell among the
  updatable cells raises \<^verbatim>\<open>KeyError\<close>, and the row of the order, which is not active,
  stays shown: one more row is shown than before.
\<close>

theorem rejected_order_stays_shown:
  "BaseMonitor_init (OrderMonitor tr) = Inl AttributeError \<and>
   (cells m (PStr ''SIM.1'') = None
    \<longrightarrow> fst (ActiveOrderMonitor_process_event str tr (order_event ''1'' 0 ''Rejected'') m) =
          Raised KeyError \<and>
        shown (snd (ActiveOrderMonitor_process_event str tr (order_event ''1'' 0 ''Rejected'') m)) =
          Suc (shown m) \<and>
        is_active (ev_data (order_event ''1'' 0 ''Rejected'')) = Inr False)"
proof (intro conjI impI)
  show "BaseMonitor_init (OrderMonitor tr) = Inl AttributeError"
    by (rule OrderMonitor_init_raises)
next
  let ?cfg = "OrderMonitor tr"
  let ?ev = "order_event ''1'' 0 ''Rejected''"
  have e: "ev_data ?ev (data_key ?cfg) = Some (PStr ''SIM.1'')"
    "ev_data ?ev ''vt_orderid'' = Some (PStr ''SIM.1'')"
    "ev_data ?ev ''status'' = Some (PEnum ''Status'' ''Rejected'')"
    by (simp_all add: order_key order_event_def example_order_def)
  show "is_active (ev_data ?ev) = Inr False"
    using e(3) by (simp add: is_active_def terminal_status_def)
  assume unlisted: "cells m (PStr ''SIM.1'') = None"
  have dk: "data_key ?cfg \<noteq> []" by (simp add: order_key)
  from process_event_fresh [OF order_headers_distinct dk order_attrs e(1) unlisted, of str]
  obtain m' rc where pe: "process_event str ?cfg ?ev m = (Done, m')"
    and cs: "cells m' (PStr ''SIM.1'') = Some rc"
    and en: "list_all2 (entry_new str (ev_data ?ev) (heap m')) rc (updatable (headers ?cfg))"
    and hid: "map row_hidden (table m') = False # map row_hidden (table m)"
    by auto
  have "map fst rc = map fst (updatable (headers ?cfg))"
    using en by (rule list_all2_entry_new_fst)
  then have "map fst rc = [''traded'', ''status'', ''datetime'']"
    using order_updatable [of tr] by auto
  then have "set (map fst rc) = set [''traded'', ''status'', ''datetime'']" by (rule arg_cong)
  then have "''volume'' \<notin> fst ` set rc" by simp
  then have "map_of rc ''volume'' = None" by (simp add: map_of_eq_None_iff)
  with pe cs e(2)
  have r: "ActiveOrderMonitor_process_event str tr ?ev m = (Raised KeyError, m')"
    by (simp add: ActiveOrderMonitor_process_event_def)
  then show "fst (ActiveOrderMonitor_process_event str tr ?ev m) = Raised KeyError" by simp
  have "filter (\<lambda>b. \<not> b) (map row_hidden (table m')) =
      False # filter (\<lambda>b. \<not> b) (map row_hidden (table m))"
    by (simp add: hid)
  then have "length (filter (\<lambda>b. \<not> b) (map row_hidden (table m'))) =
      Suc (length (filter (\<lambda>b. \<not> b) (map row_hidden (table m))))"
    by simp
  then have "shown m' = Suc (shown m)"
    by (simp add: shown_def filter_map comp_def)
  with r show "shown (snd (ActiveOrderMonitor_process_event str tr ?ev m)) = Suc (shown m)"
    by simp
qed

theorem rejected_order_stays_shown_witness:
  "BaseMonitor_init (OrderMonitor (\<lambda>s. s)) = Inl AttributeError \<and>
   cells (one_row (\<lambda>v. []) (OrderMonitor (\<lambda>s. s)) (PStr ''SIM.2'') (example_order ''2'' 0 ''NotTraded''))
     (PStr ''SIM.1'') = None \<and>
   shown (one_row (\<lambda>v. []) (OrderMonitor (\<lambda>s. s)) (PStr ''SIM.2'') (example_order ''2'' 0 ''NotTraded'')) = 1 \<and>
   fst (ActiveOrderMonitor_process_event (\<lambda>v. []) (\<lambda>s. s) (order_event ''1'' 0 ''Rejected'')
     (one_row (\<lambda>v. []) (OrderMonitor (\<lambda>s. s)) (PStr ''SIM.2'') (example_order ''2'' 0 ''NotTraded''))) =
     Raised KeyError \<and>
   shown (snd (ActiveOrderMonitor_process_event (\<lambda>v. []) (\<lambda>s. s) (order_event ''1'' 0 ''Rejected'')
     (one_row (\<lambda>v. []) (OrderMonitor (\<lambda>s. s)) (PStr ''SIM.2'') (example_order ''2'' 0 ''NotTraded'')))) = 2 \<and>
   is_active (ev_data (order_event ''1'' 0 ''Rejected'')) = Inr False"
proof -
  have u: "cells (one_row (\<lambda>v. []) (OrderMonitor (\<lambda>s. s)) (PStr ''SIM.2'') (example_order ''2'' 0 ''NotTraded''))
     (PStr ''SIM.1'') = None"
    by (rule one_row_cells(2)) simp
  have s: "shown (one_row (\<lambda>v. []) (OrderMonitor (\<lambda>s. s)) (PStr ''SIM.2'') (example_order ''2'' 0 ''NotTraded'')) = 1"
    by (simp add: shown_def one_row_def)
  show ?thesis
    using rejected_order_stays_shown [of "\<lambda>s. s"
        "one_row (\<lambda>v. []) (OrderMonitor (\<lambda>s. s)) (PStr ''SIM.2'') (example_order ''2'' 0 ''NotTraded'')"
        "\<lambda>v. []"] u s
    by simp
qed

section \<open>The commands of the trading widget\<close>

lemma cancel_orders_eq:
  "cancel_orders order_list calls =
     calls @ map (\<lambda>order. main_engine_cancel_order (create_cancel_request order)
                     (od_gateway_name order)) order_list"
  by (induction order_list arbitrary: calls) simp_all

text \<open>
  C6.  The calls \<open>cancel_all\<close> makes on the registry are the query for the active orders
  followed by one \<^verbatim>\<open>cancel_order\<close> per order the query returned, in order, each with the
  cancel request of that order and the gateway name recorded on it; there is no other
  effect, so no collection is written by the widget.
\<close>

theorem cancel_all_one_request_per_order:
  "cancel_all order_list =
     main_engine_get_all_active_orders #
     map (\<lambda>order. main_engine_cancel_order
                     \<lparr>cr_orderid = od_orderid order, cr_symbol = od_symbol order,
                      cr_exchange = od_exchange order\<rparr>
                     (od_gateway_name order)) order_list"
  by (simp add: cancel_all_def cancel_orders_eq create_cancel_request_def)

lemmas float_defs = py_float_def strip_def is_space_def ascii_lower_def number_def
  digitpart_def is_digit_def digit_val_def exponent_def digits_value_def scale10_def Let_def

lemma enum_by_value_member: "v \<in> set members \<Longrightarrow> enum_by_value members v = Inr v"
  by (simp add: enum_by_value_def)

text \<open>
  C5, as amended.  With an empty symbol or volume field \<open>send_order\<close> opens the error
  dialog and forwards nothing.  With both fields filled, a volume text (and a price text,
  unless blank) that \<^verbatim>\<open>float\<close> accepts and combo texts that are values of their enums,
  it forwards exactly one order request, with the entered symbol, exchange, direction,
  type, offset, volume and price (0 for a blank price), to the selected gateway name.
  With both fields filled and a volume text that \<^verbatim>\<open>float\<close> rejects it raises and
  forwards nothing.
\<close>

theorem send_order_checks_and_forwards:
  "(symbol_line w = [] \<or> volume_line w = []
      \<longrightarrow> (\<exists>title msg. send_order k tr w = (Done, [MessageBox_critical title msg])))
   \<and>
   (symbol_line w \<noteq> [] \<and> volume_line w \<noteq> [] \<and> py_float (volume_line w) = Inr volume \<and>
    (if price_line w = [] then price = Finite 0 else py_float (price_line w) = Inr price) \<and>
    exchange_combo w \<in> set (Exchange_values k) \<and>
    direction_combo w \<in> set (Direction_values k) \<and>
    order_type_combo w \<in> set (OrderType_values k) \<and>
    offset_combo w \<in> set (Offset_values k)
      \<longrightarrow> send_order k tr w =
            (Done, [main_engine_send_order
                      \<lparr>rq_symbol = symbol_line w, rq_exchange = exchange_combo w,
                       rq_direction = direction_combo w, rq_type = order_type_combo w,
                       rq_volume = volume, rq_price = price, rq_offset = offset_combo w,
                       rq_reference = ''ManualTrading''\<rparr>
                      (gateway_combo w)]))
   \<and>
   (symbol_line w \<noteq> [] \<and> volume_line w \<noteq> [] \<and> py_float (volume_line w) = Inl e
      \<longrightarrow> send_order k tr w = (Raised e, []))"
proof (intro conjI impI)
  assume "symbol_line w = [] \<or> volume_line w = []"
  then show "\<exists>title msg. send_order k tr w = (Done, [MessageBox_critical title msg])"
    by (auto simp: send_order_def Let_def)
next
  assume a: "symbol_line w \<noteq> [] \<and> volume_line w \<noteq> [] \<and> py_float (volume_line w) = Inr volume \<and>
    (if price_line w = [] then price = Finite 0 else py_float (price_line w) = Inr price) \<and>
    exchange_combo w \<in> set (Exchange_values k) \<and>
    direction_combo w \<in> set (Direction_values k) \<and>
    order_type_combo w \<in> set (OrderType_values k) \<and>
    offset_combo w \<in> set (Offset_values k)"
  then have p: "(if price_line w = [] then Inr (Finite 0) else py_float (price_line w)) = Inr price"
    by (auto split: if_splits)
  from a have en: "enum_by_value (Exchange_values k) (exchange_combo w) = Inr (exchange_combo w)"
    "enum_by_value (Direction_values k) (direction_combo w) = Inr (direction_combo w)"
    "enum_by_value (OrderType_values k) (order_type_combo w) = Inr (order_type_combo w)"
    "enum_by_value (Offset_values k) (offset_combo w) = Inr (offset_combo w)"
    by (simp_all add: enum_by_value_member)
  from a have s: "symbol_line w \<noteq> []" "volume_line w \<noteq> []" "py_float (volume_line w) = Inr volume"
    by simp_all
  show "send_order k tr w =
            (Done, [main_engine_send_order
                      \<lparr>rq_symbol = symbol_line w, rq_exchange = exchange_combo w,
                       rq_direction = direction_combo w, rq_type = order_type_combo w,
                       rq_volume = volume, rq_price = price, rq_offset = offset_combo w,
                       rq_reference = ''ManualTrading''\<rparr>
                      (gateway_combo w)])"
    using s p en by (simp add: send_order_def Let_def)
next
  assume "symbol_line w \<noteq> [] \<and> volume_line w \<noteq> [] \<and> py_float (volume_line w) = Inl e"
  then show "send_order k tr w = (Raised e, [])"
    by (simp add: send_order_def Let_def)
qed

lemma float_10: "py_float ''10'' = Inr (Finite 10)"
  by (simp add: float_defs)

lemma float_1000: "py_float ''1,000'' = Inl ValueError"
  by (simp add: float_defs)

theorem send_order_checks_and_forwards_witness:
  "symbol_line (example_widget ''AAPL'' [] []) \<noteq> [] \<and>
   volume_line (example_widget ''AAPL'' [] []) = [] \<and>
   (\<exists>title msg. send_order example_constants (\<lambda>s. s) (example_widget ''AAPL'' [] []) =
      (Done, [MessageBox_critical title msg])) \<and>
   py_float (volume_line (example_widget ''AAPL'' ''10'' [])) = Inr (Finite 10) \<and>
   price_line (example_widget ''AAPL'' ''10'' []) = [] \<and>
   send_order example_constants (\<lambda>s. s) (example_widget ''AAPL'' ''10'' []) =
     (Done, [main_engine_send_order
               \<lparr>rq_symbol = ''AAPL'', rq_exchange = ''NASDAQ'', rq_direction = ''LONG'',
                rq_type = ''LIMIT'', rq_volume = Finite 10, rq_price = Finite 0,
                rq_offset = ''NONE'', rq_reference = ''ManualTrading''\<rparr> ''SIM'']) \<and>
   py_float (volume_line (example_widget ''AAPL'' ''1,000'' [])) = Inl ValueError \<and>
   send_order example_constants (\<lambda>s. s) (example_widget ''AAPL'' ''1,000'' []) =
     (Raised ValueError, [])"
  using send_order_checks_and_forwards [of "example_widget ''AAPL'' [] []" example_constants
      "\<lambda>s. s" "Finite 0" "Finite 0" ValueError]
    send_order_checks_and_forwards [of "example_widget ''AAPL'' ''10'' []" example_constants
      "\<lambda>s. s" "Finite 10" "Finite 0" ValueError]
    send_order_checks_and_forwards [of "example_widget ''AAPL'' ''1,000'' []" example_constants
      "\<lambda>s. s" "Finite 0" "Finite 0" ValueError]
    float_10 float_1000
  by (simp add: example_widget_def example_constants_def)

text \<open>
  C5 as stated fails: symbol \<^verbatim>\<open>AAPL\<close> and volume text \<^verbatim>\<open>1,000\<close> are both non-empty, yet
  \<^verbatim>\<open>float("1,000")\<close> raises and no request is forwarded.
\<close>

theorem send_order_counterexample:
  "symbol_line (example_widget ''AAPL'' ''1,000'' []) \<noteq> [] \<and>
   volume_line (example_widget ''AAPL'' ''1,000'' []) \<noteq> [] \<and>
   send_order example_constants (\<lambda>s. s) (example_widget ''AAPL'' ''1,000'' []) =
     (Raised ValueError, [])"
  using float_1000 by (simp add: send_order_def example_widget_def Let_def)

section \<open>The connection dialog and the chart module\<close>

lemma objectdict_not_builtin: "''ObjectDict'' \<notin> set python_builtins"
  by (simp add: python_builtins_def)

lemma connect_fields_raises:
  "ws \<noteq> [] \<Longrightarrow> \<exists>e. connect_fields ws setting = Inl e"
  by (cases ws)
     (auto simp: str_is_list_type_def call_str_object_def split: sum.splits error.splits)

lemma connect_nonempty_raises:
  "cd_widgets d \<noteq> [] \<Longrightarrow> \<exists>e. connect d fs = (Raised e, fs, [])"
  using connect_fields_raises [of "cd_widgets d" "[]"] by (auto simp: connect_def)

text \<open>
  C4, at the failing input: the dialog of gateway CTP, whose default setting has the one
  text field \<^verbatim>\<open>username\<close>, is opened.  The constructor raises \<^verbatim>\<open>NameError\<close> for
  \<^verbatim>\<open>get_icon_path\<close> before the form is built, so there is no dialog to confirm.  And on a
  dialog object with the form that the loop of \<open>init_ui\<close> builds for that setting,
  \<open>connect\<close> calls the string \<^verbatim>\<open>"text"\<close> stored with the line edit and raises
  \<^verbatim>\<open>TypeError\<close>: no file is written and nothing is forwarded to the registry.
\<close>

theorem connect_raises_before_saving:
  "ConnectDialog_init str [(''username'', PStr ''alice'')] ''CTP'' Map.empty =
     Inl (NameError ''get_icon_path'') \<and>
   init_fields str (load_json Map.empty ''connect_ctp.json'') [(''username'', PStr ''alice'')] [] =
     Inr [(''username'', QLineEdit (str (PStr ''alice'')), ''text'')] \<and>
   connect \<lparr>cd_gateway_name = ''CTP'', cd_filename = ''connect_ctp.json'',
            cd_widgets = [(''username'', QLineEdit (str (PStr ''alice'')), ''text'')]\<rparr> Map.empty =
     (Raised TypeError, Map.empty, [])"
  by (simp add: ConnectDialog_init_raises connect_def load_json_def
      str_is_list_type_def call_str_object_def widget_text_def)

text \<open>
  C10.  Executing the statements of the chart widget module raises
  \<^verbatim>\<open>NameError\<close> for \<^verbatim>\<open>ObjectDict\<close>, in the body of class \<open>ChartWidget\<close>, and the name
  \<open>ChartWidget\<close> is not among the names the module has bound when the import fails.
\<close>

theorem chart_widget_import_raises:
  "fst (exec_module python_builtins chart_widget_module module_globals) =
     Raised (NameError ''ObjectDict'') \<and>
   ''ChartWidget'' \<notin> set (snd (exec_module python_builtins chart_widget_module module_globals))"
  using objectdict_not_builtin
  by (simp add: chart_widget_module_def module_globals_def)


section \<open>Delivery order of the dispatcher\<close>

lemma puts_append: "puts (acts @ bs) = puts acts @ puts bs"
  by (induction acts rule: puts.induct) simp_all

lemma dispatch_snoc: "dispatch (acts @ [a]) d = step a (dispatch acts d)"
  by (simp add: dispatch_def)

lemma dispatch_Cons: "dispatch (a # acts) d = dispatch acts (step a d)"
  by (simp add: dispatch_def)

lemma of_type_append: "of_type t (xs @ ys) = of_type t xs @ of_type t ys"
  by (simp add: of_type_def)

lemma calls_of_handler:
  "distinct hs \<Longrightarrow>
   filter (\<lambda>c. fst c = h) (map (\<lambda>x. (x, e)) hs) = (if h \<in> set hs then [(h, e)] else [])"
  by (induction hs) auto

lemma received_by_deliver:
  assumes "distinct (subscribers d (fst e))" and "queue d = e # q"
  shows "received_by (step Deliver d) h t =
           received_by d h t @ (if h \<in> set (subscribers d (fst e)) \<and> fst e = t then [e] else [])"
  using assms by (auto simp: received_by_def of_type_def calls_of_handler)

lemma step_distinct:
  "\<forall>t. distinct (subscribers d t) \<Longrightarrow> distinct (subscribers (step a d) t)"
  by (cases a) (auto simp: distinct_removeAll split: list.splits)

lemma dispatch_distinct:
  "\<forall>t. distinct (subscribers d t) \<Longrightarrow> distinct (subscribers (dispatch acts d) t)"
proof (induction acts arbitrary: t rule: rev_induct)
  case Nil
  then show ?case by (simp add: dispatch_def)
next
  case (snoc a acts)
  then have "\<forall>t. distinct (subscribers (dispatch acts d) t)" by blast
  then show ?case unfolding dispatch_snoc by (rule step_distinct)
qed

lemma dispatch_delivered:
  "\<exists>del. puts acts = del @ queue (dispatch acts new_dispatcher) \<and>
         (\<forall>h t. subseq (received_by (dispatch acts new_dispatcher) h t) (of_type t del))"
proof (induction acts rule: rev_induct)
  case Nil
  show ?case by (simp add: dispatch_def new_dispatcher_def received_by_def of_type_def)
next
  case (snoc a acts)
  let ?d = "dispatch acts (new_dispatcher :: 'a dispatcher)"
  from snoc obtain del where ps: "puts acts = del @ queue ?d"
    and sub: "\<And>h t. subseq (received_by ?d h t) (of_type t del)"
    by blast
  have dist: "\<And>t. distinct (subscribers ?d t)"
    by (rule dispatch_distinct) (simp add: new_dispatcher_def)
  show ?case
  proof (cases a)
    case (Register t h)
    then have "queue (step a ?d) = queue ?d" "received (step a ?d) = received ?d" by simp_all
    with ps sub Register show ?thesis
      by (auto simp: dispatch_snoc puts_append received_by_def)
  next
    case (Unregister t h)
    then have "queue (step a ?d) = queue ?d" "received (step a ?d) = received ?d" by simp_all
    with ps sub Unregister show ?thesis
      by (auto simp: dispatch_snoc puts_append received_by_def)
  next
    case (Put e)
    then have "queue (step a ?d) = queue ?d @ [e]" "received (step a ?d) = received ?d"
      by simp_all
    with ps sub Put show ?thesis
      by (auto simp: dispatch_snoc puts_append received_by_def)
  next
    case Deliver
    show ?thesis
    proof (cases "queue ?d")
      case Nil
      then have "step a ?d = ?d" using Deliver by simp
      with ps sub Deliver show ?thesis
        by (auto simp: dispatch_snoc puts_append)
    next
      case (Cons e q)
      have q: "queue (step a ?d) = q" using Deliver Cons by simp
      have "subseq (received_by (step a ?d) h t) (of_type t (del @ [e]))" for h t
      proof -
        have r: "received_by (step a ?d) h t =
            received_by ?d h t @ (if h \<in> set (subscribers ?d (fst e)) \<and> fst e = t then [e] else [])"
          using dist Cons unfolding Deliver by (intro received_by_deliver) simp_all
        show ?thesis
        proof (cases "fst e = t")
          case True
          then have "of_type t (del @ [e]) = of_type t del @ [e]"
            by (simp add: of_type_def)
          with r sub [of h t] show ?thesis
            by (auto intro: list_emb_append_mono subseq_rev_drop_many)
        next
          case False
          then have "of_type t (del @ [e]) = of_type t del" by (simp add: of_type_def)
          with r False sub [of h t] show ?thesis by simp
        qed
      qed
      moreover have "puts (acts @ [a]) = (del @ [e]) @ q"
        using ps Cons Deliver by (simp add: puts_append)
      ultimately show ?thesis unfolding dispatch_snoc q by blast
    qed
  qed
qed

lemma dispatch_subscribed:
  assumes "h \<in> set (subscribers d t)" and "\<forall>t. distinct (subscribers d t)"
    and "keeps t h acts"
  shows "h \<in> set (subscribers (dispatch acts d) t) \<and>
         received_by (dispatch acts d) h t @ of_type t (queue (dispatch acts d)) =
           received_by d h t @ of_type t (queue d) @ of_type t (puts acts)"
  using assms(3)
proof (induction acts rule: rev_induct)
  case Nil
  show ?case using assms(1) by (simp add: dispatch_def of_type_def)
next
  case (snoc a acts)
  let ?d = "dispatch acts d"
  from snoc have k: "keeps t h acts" and na: "a \<noteq> Unregister t h"
    by (auto simp: keeps_def)
  from snoc.IH [OF k] have mem: "h \<in> set (subscribers ?d t)"
    and eq: "received_by ?d h t @ of_type t (queue ?d) =
           received_by d h t @ of_type t (queue d) @ of_type t (puts acts)"
    by simp_all
  have dist: "\<And>t. distinct (subscribers ?d t)"
    using assms(2) by (rule dispatch_distinct)
  show ?case
  proof (cases a)
    case (Register t' h')
    then have "queue (step a ?d) = queue ?d" "received (step a ?d) = received ?d"
      "h \<in> set (subscribers (step a ?d) t)"
      using mem by auto
    with eq Register show ?thesis
      by (simp add: dispatch_snoc puts_append received_by_def of_type_def)
  next
    case (Unregister t' h')
    then have "queue (step a ?d) = queue ?d" "received (step a ?d) = received ?d"
      "h \<in> set (subscribers (step a ?d) t)"
      using mem na by auto
    with eq Unregister show ?thesis
      by (simp add: dispatch_snoc puts_append received_by_def of_type_def)
  next
    case (Put e)
    then have "queue (step a ?d) = queue ?d @ [e]" "received (step a ?d) = received ?d"
      "subscribers (step a ?d) = subscribers ?d"
      by simp_all
    with eq mem Put show ?thesis
      by (simp add: dispatch_snoc puts_append received_by_def of_type_append)
  next
    case Deliver
    show ?thesis
    proof (cases "queue ?d")
      case Nil
      then have "step a ?d = ?d" using Deliver by simp
      with eq mem Deliver show ?thesis by (simp add: dispatch_snoc puts_append of_type_def)
    next
      case (Cons e q)
      have q: "queue (step a ?d) = q" "subscribers (step a ?d) = subscribers ?d"
        using Deliver Cons by simp_all
      have r: "received_by (step a ?d) h t =
          received_by ?d h t @ (if h \<in> set (subscribers ?d (fst e)) \<and> fst e = t then [e] else [])"
        using dist Cons unfolding Deliver by (intro received_by_deliver) simp_all
      have "received_by (step a ?d) h t @ of_type t q = received_by ?d h t @ of_type t (queue ?d)"
        using r mem Cons by (auto simp: of_type_def)
      with eq q mem Deliver show ?thesis
        by (simp add: dispatch_snoc puts_append of_type_def)
    qed
  qed
qed

text \<open>
  C7.  In every run of the dispatcher, whatever the interleaving of the producer's
  \<^verbatim>\<open>put\<close> calls with deliveries and registrations, the events of a type that a handler
  receives are received in the order in which they were put (none twice, none out of
  order).  For a handler registered for the type before the run and never unregistered,
  the events received followed by the events of the type still queued are exactly the
  events of the type put, in that order: once the queue is drained the handler has
  received them all.
\<close>

theorem per_type_fifo_delivery:
  "subseq (received_by (dispatch acts new_dispatcher) h t) (of_type t (puts acts)) \<and>
   (keeps t h acts \<longrightarrow>
      received_by (dispatch (Register t h # acts) new_dispatcher) h t @
        of_type t (queue (dispatch (Register t h # acts) new_dispatcher)) =
      of_type t (puts acts))"
proof
  obtain del where ps: "puts acts = del @ queue (dispatch acts (new_dispatcher :: 'a dispatcher))"
    and sub: "subseq (received_by (dispatch acts (new_dispatcher :: 'a dispatcher)) h t) (of_type t del)"
    using dispatch_delivered [of acts] by blast
  from sub have "subseq (received_by (dispatch acts (new_dispatcher :: 'a dispatcher)) h t)
      (of_type t del @ of_type t (queue (dispatch acts (new_dispatcher :: 'a dispatcher))))"
    by (rule subseq_rev_drop_many)
  then show "subseq (received_by (dispatch acts new_dispatcher) h t) (of_type t (puts acts))"
    by (simp add: ps of_type_append)
next
  show "keeps t h acts \<longrightarrow>
      received_by (dispatch (Register t h # acts) new_dispatcher) h t @
        of_type t (queue (dispatch (Register t h # acts) new_dispatcher)) =
      of_type t (puts acts)"
  proof
    assume k: "keeps t h acts"
    let ?d0 = "step (Register t h) (new_dispatcher :: 'a dispatcher)"
    have "h \<in> set (subscribers ?d0 t)" "\<forall>t. distinct (subscribers ?d0 t)"
      by (simp_all add: new_dispatcher_def)
    from dispatch_subscribed [OF this k]
    show "received_by (dispatch (Register t h # acts) new_dispatcher) h t @
        of_type t (queue (dispatch (Register t h # acts) new_dispatcher)) =
      of_type t (puts acts)"
      by (simp add: dispatch_Cons new_dispatcher_def received_by_def of_type_def)
  qed
qed

theorem per_type_fifo_delivery_witness:
  "keeps ''eOrder.'' ''oms''
     [Put (''eOrder.'', 1::nat), Put (''eTick.'', 7), Put (''eOrder.'', 2), Deliver, Deliver, Deliver] \<and>
   received_by (dispatch (Register ''eOrder.'' ''oms'' #
       [Put (''eOrder.'', 1::nat), Put (''eTick.'', 7), Put (''eOrder.'', 2), Deliver, Deliver, Deliver])
       new_dispatcher) ''oms'' ''eOrder.'' = [(''eOrder.'', 1), (''eOrder.'', 2)]"
  using per_type_fifo_delivery [of
      "[Put (''eOrder.'', 1::nat), Put (''eTick.'', 7), Put (''eOrder.'', 2), Deliver, Deliver, Deliver]"
      "''oms''" "''eOrder.''"]
  by (simp add: keeps_def dispatch_def new_dispatcher_def of_type_def)

section \<open>The traded volume of a stored order\<close>





end
